theory Spec2Isabelle
  imports Complex_Main "HOL-Library.Option_ord" "HOL-Library.Char_ord" "HOL-Library.List_Lexorder"
begin

section \<open>JavaScript numbers and dates\<close>

text \<open>
  The attendance code computes with JavaScript numbers. A number is modelled as \<open>NaN\<close> or
  an exact rational: every quantity below is a count of milliseconds or of minutes, or a
  quotient of such counts by a non-zero constant. The infinities are not represented; no
  divisor in the modelled code can be zero.
\<close>

datatype jsnum = NaN | Num rat

fun js_add :: "jsnum \<Rightarrow> jsnum \<Rightarrow> jsnum" where
  "js_add (Num a) (Num b) = Num (a + b)"
| "js_add _ _ = NaN"

fun js_sub :: "jsnum \<Rightarrow> jsnum \<Rightarrow> jsnum" where
  "js_sub (Num a) (Num b) = Num (a - b)"
| "js_sub _ _ = NaN"

fun js_div :: "jsnum \<Rightarrow> jsnum \<Rightarrow> jsnum" where
  "js_div (Num a) (Num b) = (if b = 0 then NaN else Num (a / b))"
| "js_div _ _ = NaN"

text \<open>\<open>Math.max\<close>, \<open>Math.floor\<close> and \<open>Math.trunc\<close>: each returns \<open>NaN\<close> on \<open>NaN\<close>.\<close>

fun Math_max :: "jsnum \<Rightarrow> jsnum \<Rightarrow> jsnum" where
  "Math_max (Num a) (Num b) = Num (max a b)"
| "Math_max _ _ = NaN"

fun Math_floor :: "jsnum \<Rightarrow> jsnum" where
  "Math_floor (Num a) = Num (of_int \<lfloor>a\<rfloor>)"
| "Math_floor NaN = NaN"

fun Math_trunc :: "jsnum \<Rightarrow> jsnum" where
  "Math_trunc (Num a) = Num (if 0 \<le> a then of_int \<lfloor>a\<rfloor> else of_int \<lceil>a\<rceil>)"
| "Math_trunc NaN = NaN"

text \<open>The comparison \<open>a > b\<close>: false as soon as one side is \<open>NaN\<close>.\<close>

fun js_gt :: "jsnum \<Rightarrow> jsnum \<Rightarrow> bool" where
  "js_gt (Num a) (Num b) = (b < a)"
| "js_gt _ _ = False"

text \<open>\<open>a >= 0\<close> on a number; false on \<open>NaN\<close>.\<close>

fun js_nonneg :: "jsnum \<Rightarrow> bool" where
  "js_nonneg (Num a) = (0 \<le> a)"
| "js_nonneg NaN = False"

text \<open>\<open>a < 0\<close> on a number; false on \<open>NaN\<close>.\<close>

fun js_negative :: "jsnum \<Rightarrow> bool" where
  "js_negative (Num a) = (a < 0)"
| "js_negative NaN = False"

text \<open>
  A \<open>Date\<close> object is its time value: milliseconds since the epoch, or none for an
  Invalid Date. \<open>getTime\<close> of an Invalid Date is \<open>NaN\<close>. Time values outside
  \<open>\<plusminus>8.64e15\<close> do not exist (\<open>TimeClip\<close>).
\<close>

type_synonym jsdate = "int option"

definition getTime :: "jsdate \<Rightarrow> jsnum" where
  "getTime d = (case d of None \<Rightarrow> NaN | Some t \<Rightarrow> Num (of_int t))"

definition TimeClip :: "int \<Rightarrow> jsdate" where
  "TimeClip t = (if \<bar>t\<bar> \<le> 8640000000000000 then Some t else None)"

definition msPerDay :: int where
  "msPerDay = 86400000"

subsection \<open>Calendar dates\<close>

text \<open>Day number (days since 1970-01-01) of a proleptic Gregorian date, and back.\<close>

definition days_from_civil :: "int \<Rightarrow> int \<Rightarrow> int \<Rightarrow> int" where
  "days_from_civil y m d =
     (let y' = (if m \<le> 2 then y - 1 else y);
          era = y' div 400;
          yoe = y' - era * 400;
          doy = (153 * (if 2 < m then m - 3 else m + 9) + 2) div 5 + d - 1;
          doe = yoe * 365 + yoe div 4 - yoe div 100 + doy
      in era * 146097 + doe - 719468)"

definition civil_from_days :: "int \<Rightarrow> int \<times> int \<times> int" where
  "civil_from_days z0 =
     (let z = z0 + 719468;
          era = z div 146097;
          doe = z - era * 146097;
          yoe = (doe - doe div 1460 + doe div 36524 - doe div 146096) div 365;
          doy = doe - (365 * yoe + yoe div 4 - yoe div 100);
          mp = (5 * doy + 2) div 153;
          d = doy - (153 * mp + 2) div 5 + 1;
          m = (if mp < 10 then mp + 3 else mp - 9);
          y = yoe + era * 400
      in (if m \<le> 2 then y + 1 else y, m, d))"

definition leap_year :: "int \<Rightarrow> bool" where
  "leap_year y = (y mod 4 = 0 \<and> (y mod 100 \<noteq> 0 \<or> y mod 400 = 0))"

definition days_in_month :: "int \<Rightarrow> int \<Rightarrow> int" where
  "days_in_month y m =
     (if m = 2 then (if leap_year y then 29 else 28)
      else if m = 4 \<or> m = 6 \<or> m = 9 \<or> m = 11 then 30 else 31)"

subsection \<open>Reading and writing ISO strings\<close>

definition digit_val :: "char \<Rightarrow> int option" where
  "digit_val c = map_of
     [(CHR ''0'', 0), (CHR ''1'', 1), (CHR ''2'', 2), (CHR ''3'', 3), (CHR ''4'', 4),
      (CHR ''5'', 5), (CHR ''6'', 6), (CHR ''7'', 7), (CHR ''8'', 8), (CHR ''9'', 9)] c"

text \<open>The value of a non-empty string of decimal digits.\<close>

fun digits_acc :: "int \<Rightarrow> string \<Rightarrow> int option" where
  "digits_acc acc [] = Some acc"
| "digits_acc acc (c # cs) =
     (case digit_val c of None \<Rightarrow> None | Some v \<Rightarrow> digits_acc (acc * 10 + v) cs)"

definition digits_val :: "string \<Rightarrow> int option" where
  "digits_val s = (if s = [] then None else digits_acc 0 s)"

text \<open>\<open>YYYY-MM-DD\<close> to its day number; none when the string is not a date.\<close>

fun parse_date :: "string \<Rightarrow> int option" where
  "parse_date [y1, y2, y3, y4, s1, m1, m2, s2, d1, d2] =
     (if s1 = CHR ''-'' \<and> s2 = CHR ''-'' then
        (case (digits_val [y1, y2, y3, y4], digits_val [m1, m2], digits_val [d1, d2]) of
           (Some y, Some m, Some d) \<Rightarrow>
             (if 1 \<le> m \<and> m \<le> 12 \<and> 1 \<le> d \<and> d \<le> days_in_month y m
              then Some (days_from_civil y m d) else None)
         | _ \<Rightarrow> None)
      else None)"
| "parse_date _ = None"

text \<open>
  The fraction of a second, in milliseconds: the first three digits count, further digits
  are dropped.
\<close>

definition parse_fraction :: "string \<Rightarrow> int option" where
  "parse_fraction s =
     (case digits_val s of None \<Rightarrow> None
      | Some _ \<Rightarrow> digits_val (take 3 (s @ ''00'')))"

text \<open>
  \<open>HH:MM\<close>, \<open>HH:MM:SS\<close> or \<open>HH:MM:SS.fff\<close> to milliseconds since midnight.
\<close>

fun parse_seconds :: "string \<Rightarrow> int option" where
  "parse_seconds [] = Some 0"
| "parse_seconds (c # s1 # s2 # rest) =
     (if c = CHR '':'' then
        (case digits_val [s1, s2] of None \<Rightarrow> None
         | Some s \<Rightarrow>
             (if 59 < s then None
              else (case rest of
                      [] \<Rightarrow> Some (s * 1000)
                    | p # fr \<Rightarrow>
                        (if p = CHR ''.'' then
                           (case parse_fraction fr of None \<Rightarrow> None
                            | Some f \<Rightarrow> Some (s * 1000 + f))
                         else None))))
      else None)"
| "parse_seconds _ = None"

fun parse_clock :: "string \<Rightarrow> int option" where
  "parse_clock (h1 # h2 # c # m1 # m2 # rest) =
     (if c = CHR '':'' then
        (case (digits_val [h1, h2], digits_val [m1, m2], parse_seconds rest) of
           (Some h, Some m, Some ms) \<Rightarrow>
             (if h \<le> 23 \<and> m \<le> 59 then Some (h * 3600000 + m * 60000 + ms) else None)
         | _ \<Rightarrow> None)
      else None)"
| "parse_clock _ = None"

text \<open>
  The zone designator at the end of a time: \<open>Z\<close> or \<open>\<plusminus>HH:MM\<close>, as minutes east of
  UTC. The result is the time without the designator and the offset; no designator means
  local time.
\<close>

definition parse_offset :: "string \<Rightarrow> int option" where
  "parse_offset z =
     (case z of
        [sg, h1, h2, c, m1, m2] \<Rightarrow>
          (if c = CHR '':'' \<and> (sg = CHR ''+'' \<or> sg = CHR ''-'') then
             (case (digits_val [h1, h2], digits_val [m1, m2]) of
                (Some h, Some m) \<Rightarrow>
                  (if h \<le> 23 \<and> m \<le> 59
                   then Some ((if sg = CHR ''-'' then - 1 else 1) * (h * 60 + m)) else None)
              | _ \<Rightarrow> None)
           else None)
      | _ \<Rightarrow> None)"

definition split_zone :: "string \<Rightarrow> string \<times> int option" where
  "split_zone s =
     (if s \<noteq> [] \<and> last s = CHR ''Z'' then (butlast s, Some 0)
      else (case parse_offset (drop (length s - 6) s) of
              Some off \<Rightarrow> (take (length s - 6) s, Some off)
            | None \<Rightarrow> (s, None)))"

text \<open>
  Reading an ISO string: \<open>YYYY-MM-DD\<close>, alone or followed by the letter T, a time and
  an optional zone designator. \<open>tz\<close> is the offset of the local zone in minutes east of
  UTC, taken constant; a time without a designator is local time. \<open>dateOnly\<close> is the
  offset at which a date alone is midnight. A string in no such form is an Invalid Date,
  as are the expanded years outside 0000 to 9999.
\<close>

definition read_iso :: "int \<Rightarrow> int \<Rightarrow> string \<Rightarrow> jsdate" where
  "read_iso dateOnly tz s =
     (case parse_date (take 10 s) of
        None \<Rightarrow> None
      | Some day \<Rightarrow>
          (case drop 10 s of
             [] \<Rightarrow> TimeClip (day * msPerDay - dateOnly * 60000)
           | t # rest \<Rightarrow>
               (if t \<noteq> CHR ''T'' then None
                else (case split_zone rest of
                        (clock, zone) \<Rightarrow>
                          (case parse_clock clock of
                             None \<Rightarrow> None
                           | Some ms \<Rightarrow>
                               TimeClip (day * msPerDay + ms
                                 - (case zone of None \<Rightarrow> tz | Some off \<Rightarrow> off) * 60000))))))"

text \<open>\<open>new Date(string)\<close>: a date alone is midnight UTC.\<close>

definition new_Date :: "int \<Rightarrow> string \<Rightarrow> jsdate" where
  "new_Date tz s = read_iso 0 tz s"

text \<open>
  \<open>parseISO\<close> of date-fns: a date alone is local midnight; it never throws. Of the forms
  it accepts, those above are read.
\<close>

definition parseISO :: "int \<Rightarrow> string \<Rightarrow> jsdate" where
  "parseISO tz s = read_iso tz tz s"

definition digit_char :: "int \<Rightarrow> char" where
  "digit_char n = ''0123456789'' ! nat (n mod 10)"

definition pad2 :: "int \<Rightarrow> string" where
  "pad2 n = [digit_char (n div 10), digit_char n]"

definition pad4 :: "int \<Rightarrow> string" where
  "pad4 n = [digit_char (n div 1000), digit_char (n div 100), digit_char (n div 10), digit_char n]"

text \<open>
  \<open>d.toISOString().split('T')[0]\<close>: the UTC calendar date of a valid time value, as
  \<open>YYYY-MM-DD\<close>; years outside 0000 to 9999 are written with a sign and six digits.
\<close>

definition toISOString_date :: "int \<Rightarrow> string" where
  "toISOString_date t =
     (case civil_from_days (t div msPerDay) of
        (y, m, d) \<Rightarrow>
          (if 0 \<le> y \<and> y \<le> 9999 then pad4 y
           else (if y < 0 then ''-'' else ''+'') @ pad2 (\<bar>y\<bar> div 10000) @ pad4 \<bar>y\<bar>)
          @ ''-'' @ pad2 m @ ''-'' @ pad2 d)"

text \<open>
  \<open>Number(string)\<close> on the strings met here: the empty string is 0, a string of decimal
  digits is its value, anything else counts as \<open>NaN\<close> (signs, fractions, exponents and
  surrounding blanks are not read by this model).
\<close>

definition Number :: "string \<Rightarrow> jsnum" where
  "Number s = (if s = [] then Num 0
               else (case digits_val s of None \<Rightarrow> NaN | Some n \<Rightarrow> Num (of_int n)))"

text \<open>\<open>s.split(':')\<close>: always at least one piece.\<close>

fun split_colon :: "string \<Rightarrow> string list" where
  "split_colon [] = [[]]"
| "split_colon (c # cs) =
     (if c = CHR '':'' then [] # split_colon cs
      else (case split_colon cs of p # ps \<Rightarrow> (c # p) # ps | [] \<Rightarrow> [[c]]))"

text \<open>
  The \<open>i\<close>-th element of an array destructuring; a missing element is \<open>undefined\<close>, which
  every numeric use below turns into \<open>NaN\<close>.
\<close>

definition element :: "jsnum list \<Rightarrow> nat \<Rightarrow> jsnum" where
  "element xs i = (if i < length xs then xs ! i else NaN)"

definition ToInteger :: "rat \<Rightarrow> int" where
  "ToInteger a = (if 0 \<le> a then \<lfloor>a\<rfloor> else \<lceil>a\<rceil>)"

text \<open>
  \<open>d.setHours(h, m, s, ms)\<close>: the local calendar day of \<open>d\<close> with the given wall-clock
  time; an Invalid Date or a \<open>NaN\<close> argument gives an Invalid Date.
\<close>

definition setHours :: "int \<Rightarrow> jsdate \<Rightarrow> jsnum \<Rightarrow> jsnum \<Rightarrow> jsnum \<Rightarrow> jsnum \<Rightarrow> jsdate" where
  "setHours tz d h m s ms =
     (case (d, h, m, s, ms) of
        (Some t, Num hh, Num mm, Num ss, Num mss) \<Rightarrow>
          TimeClip (((t + tz * 60000) div msPerDay) * msPerDay
                    + ToInteger hh * 3600000 + ToInteger mm * 60000
                    + ToInteger ss * 1000 + ToInteger mss - tz * 60000)
      | _ \<Rightarrow> None)"

text \<open>\<open>differenceInMinutes\<close> of date-fns: full minutes, truncated towards zero.\<close>

definition differenceInMinutes :: "jsdate \<Rightarrow> jsdate \<Rightarrow> jsnum" where
  "differenceInMinutes dateLeft dateRight =
     Math_trunc (js_div (js_sub (getTime dateLeft) (getTime dateRight)) (Num 60000))"

section \<open>Data model\<close>

record slot =
  slot_start_time :: "string option"
  slot_end_time :: "string option"

text \<open>
  An entry of \<open>shift_pattern\<close>: \<open>{ date?, day?, shift?, time_slot? }\<close>.
\<close>

record shift_entry =
  entry_date :: "string option"
  entry_day :: "int option"
  shift :: "string option"
  time_slot :: "slot option"

text \<open>
  A row of \<open>rosters\<close>, as the client receives it. \<open>grace_period\<close> is the column that one
  migration adds (\<open>INTEGER NOT NULL DEFAULT 15\<close>) and another drops; absent is \<open>None\<close>.
\<close>

record roster =
  r_id :: string
  r_employee_id :: string
  start_date :: string
  end_date :: string
  start_time :: "string option"
  end_time :: "string option"
  shift_pattern :: "shift_entry list option"
  is_active :: bool
  created_at :: string
  grace_period :: "int option"

record employee =
  emp_id :: string
  department_id :: "string option"

text \<open>A row of \<open>attendance\<close>, with the joined employee where a query selects it.\<close>

record attendance =
  a_id :: string
  employee_id :: string
  a_date :: string
  first_check_in_time :: "string option"
  first_check_out_time :: "string option"
  second_check_in_time :: "string option"
  second_check_out_time :: "string option"
  minutes_late :: "int option"
  working_duration_minutes :: "int option"
  break_duration_minutes :: "int option"
  roster_id :: "string option"
  employees :: "employee option"

text \<open>\<open>!s\<close> for a string that may be null: null, undefined and the empty string are falsy.\<close>

definition falsy :: "string option \<Rightarrow> bool" where
  "falsy s = (s = None \<or> s = Some [])"

section \<open>Lateness calculators\<close>

subsection \<open>\<open>calculateLateness\<close> (lateCalculation.ts)\<close>

text \<open>The result without its display string.\<close>

record late_result =
  isLate :: bool
  lateMinutes :: jsnum

record LateCalculationResult = late_result +
  lateHours :: jsnum

definition defaultResult :: LateCalculationResult where
  "defaultResult = \<lparr>isLate = False, lateMinutes = Num 0, lateHours = Num 0\<rparr>"

text \<open>
  The roster start for the same date as the check-in: the date part of
  \<open>checkInTime.toISOString()\<close>, the letter T and \<open>roster.start_time\<close>, read back by
  \<open>new Date\<close>.
\<close>

definition rosterStartDateTime :: "int \<Rightarrow> int \<Rightarrow> string \<Rightarrow> jsdate" where
  "rosterStartDateTime tz t st = new_Date tz (toISOString_date t @ ''T'' @ st)"

text \<open>
  \<open>toISOString\<close> throws a \<open>RangeError\<close> on an Invalid Date; the \<open>catch\<close> returns the
  default result.
\<close>

definition calculateLateness :: "int \<Rightarrow> attendance \<Rightarrow> roster \<Rightarrow> LateCalculationResult" where
  "calculateLateness tz att rost =
     (if falsy (first_check_in_time att) \<or> falsy (start_time rost) then defaultResult
      else
        (case new_Date tz (the (first_check_in_time att)) of
           None \<Rightarrow> defaultResult
         | Some t \<Rightarrow>
             (let timeDifference =
                    js_sub (getTime (Some t))
                           (getTime (rosterStartDateTime tz t (the (start_time rost))))
              in if js_gt timeDifference (Num 0) then
                   (let late = Math_floor (js_div timeDifference (Num (1000 * 60)))
                    in \<lparr>isLate = True, lateMinutes = late,
                        lateHours = Math_floor (js_div late (Num 60))\<rparr>)
                 else defaultResult)))"

definition calculateLateMinutes :: "int \<Rightarrow> attendance \<Rightarrow> roster \<Rightarrow> jsnum" where
  "calculateLateMinutes tz att rost = lateMinutes (calculateLateness tz att rost)"

subsection \<open>\<open>calculateLateDuration\<close> (lateDurationUtils.ts)\<close>

text \<open>The check-in argument is a string or a \<open>Date\<close>.\<close>

datatype time_arg = TimeString string | TimeDate jsdate

text \<open>
  The result without the two echoed \<open>Date\<close> objects and the display string.
\<close>

record LateDurationCalculation = late_result +
  gracePeriodUsed :: int

text \<open>
  The roster start for the same date as the check-in: \<open>start_time\<close> split at the colons,
  the first two pieces as numbers, set on a copy of the check-in.
\<close>

definition rosterStart :: "int \<Rightarrow> jsdate \<Rightarrow> string \<Rightarrow> jsdate" where
  "rosterStart tz actualCheckIn st =
     (let parts = map Number (split_colon st)
      in setHours tz actualCheckIn (element parts 0) (element parts 1) (Num 0) (Num 0))"

text \<open>
  \<open>roster.start_time.split\<close> throws a \<open>TypeError\<close> when \<open>start_time\<close> is null or
  undefined; the \<open>catch\<close> returns the safe defaults. Nothing else in the body throws.
\<close>

definition calculateLateDuration :: "int \<Rightarrow> time_arg \<Rightarrow> roster \<Rightarrow> LateDurationCalculation" where
  "calculateLateDuration tz checkInTime rost =
     (case start_time rost of
        None \<Rightarrow> \<lparr>isLate = False, lateMinutes = Num 0, gracePeriodUsed = 0\<rparr>
      | Some st \<Rightarrow>
          (let actualCheckIn = (case checkInTime of TimeString s \<Rightarrow> parseISO tz s | TimeDate d \<Rightarrow> d);
               minutesDifference = differenceInMinutes actualCheckIn (rosterStart tz actualCheckIn st);
               late = Math_max (Num 0) minutesDifference
           in \<lparr>isLate = js_gt late (Num 0), lateMinutes = late, gracePeriodUsed = 0\<rparr>))"

subsection \<open>The lateness rule of the specification\<close>


subsection \<open>Sample rows\<close>

definition blank_attendance :: attendance where
  "blank_attendance =
     \<lparr>a_id = ''a1'', employee_id = ''e1'', a_date = ''2024-03-20'',
      first_check_in_time = None, first_check_out_time = None,
      second_check_in_time = None, second_check_out_time = None,
      minutes_late = None, working_duration_minutes = None,
      break_duration_minutes = None, roster_id = None, employees = None\<rparr>"

definition check_in_0820 :: attendance where
  "check_in_0820 = blank_attendance\<lparr>first_check_in_time := Some ''2024-03-20T08:20:00Z''\<rparr>"

text \<open>A roster starting at 08:00 with a grace period of 15 minutes.\<close>

definition roster_0800 :: roster where
  "roster_0800 =
     \<lparr>r_id = ''r1'', r_employee_id = ''e1'',
      start_date = ''2024-01-01'', end_date = ''2024-12-31'',
      start_time = Some ''08:00'', end_time = Some ''17:00'',
      shift_pattern = None, is_active = True,
      created_at = ''2024-01-01T00:00:00Z'', grace_period = Some 15\<rparr>"

section \<open>Working time\<close>

subsection \<open>\<open>calculateWorkingTime\<close> (AttendanceDataRecreationService.ts)\<close>

record WorkingTimeCalculation =
  totalMinutes :: jsnum
  breakMinutes :: jsnum
  netWorkingMinutes :: jsnum

text \<open>
  \<open>Math.max(0, (b.getTime() - a.getTime()) / (1000 * 60))\<close> for the two strings \<open>a\<close>
  and \<open>b\<close>: the minutes from \<open>a\<close> to \<open>b\<close>, not below 0, not rounded.
\<close>

definition minutes_between :: "int \<Rightarrow> string \<Rightarrow> string \<Rightarrow> jsnum" where
  "minutes_between tz a b =
     Math_max (Num 0)
       (js_div (js_sub (getTime (new_Date tz b)) (getTime (new_Date tz a))) (Num (1000 * 60)))"

text \<open>
  The four arguments are \<open>string | null\<close>. Only a session with both its check-in and its
  check-out adds to \<open>totalMinutes\<close>; the function takes no current time.
\<close>

definition calculateWorkingTime ::
  "int \<Rightarrow> string option \<Rightarrow> string option \<Rightarrow> string option \<Rightarrow> string option
     \<Rightarrow> WorkingTimeCalculation" where
  "calculateWorkingTime tz firstCheckIn firstCheckOut secondCheckIn secondCheckOut =
     (let total0 = Num 0;
          total1 = (if \<not> falsy firstCheckIn \<and> \<not> falsy firstCheckOut
                    then js_add total0 (minutes_between tz (the firstCheckIn) (the firstCheckOut))
                    else total0);
          total2 = (if \<not> falsy secondCheckIn \<and> \<not> falsy secondCheckOut
                    then js_add total1 (minutes_between tz (the secondCheckIn) (the secondCheckOut))
                    else total1);
          break = (if \<not> falsy firstCheckOut \<and> \<not> falsy secondCheckIn
                   then minutes_between tz (the firstCheckOut) (the secondCheckIn)
                   else Num 0)
      in \<lparr>totalMinutes = total2, breakMinutes = break,
          netWorkingMinutes = js_sub total2 break\<rparr>)"

subsection \<open>The per-record step of \<open>recreateAttendanceData\<close> (AttendanceDataRecreationService.ts)\<close>

text \<open>
  The service's own private \<open>calculateLateDuration\<close> (lines 51 to 70), a third lateness
  calculation. \<open>RosterService.getRosterById\<close> is the parameter \<open>getRosterById\<close>: the roster
  of the id, none when it finds none or fails (the \<open>catch\<close> returns 0 as well). The minutes
  are not floored. A null \<open>start_time\<close> throws in \<open>split\<close>, and the \<open>catch\<close> returns 0.
\<close>

definition recreation_calculateLateDuration ::
  "int \<Rightarrow> (string \<Rightarrow> roster option) \<Rightarrow> string \<Rightarrow> string \<Rightarrow> jsnum" where
  "recreation_calculateLateDuration tz getRosterById checkInTime rosterId =
     (case getRosterById rosterId of
        None \<Rightarrow> Num 0
      | Some rost \<Rightarrow>
          (case start_time rost of
             None \<Rightarrow> Num 0
           | Some st \<Rightarrow>
               (let checkIn = new_Date tz checkInTime;
                    rosterStart' = rosterStart tz checkIn st
                in Math_max (Num 0)
                     (js_div (js_sub (getTime checkIn) (getTime rosterStart')) (Num (1000 * 60))))))"

text \<open>The object passed to \<open>update\<close> for one record, without \<open>updated_at\<close>.\<close>

record attendance_update =
  upd_working_duration_minutes :: jsnum
  upd_break_duration_minutes :: jsnum
  upd_minutes_late :: jsnum

text \<open>
  The body of the loop over the fetched records (lines 118 to 153): the working time, the
  late duration when the record has both a roster reference and a first check-in, else 0,
  and the update of the record, which is issued in every case. The worked minutes written
  are \<open>netWorkingMinutes\<close>.
\<close>

definition recreateAttendanceData_record ::
  "int \<Rightarrow> (string \<Rightarrow> roster option) \<Rightarrow> attendance \<Rightarrow> attendance_update" where
  "recreateAttendanceData_record tz getRosterById record =
     (let workingTime = calculateWorkingTime tz (first_check_in_time record)
                          (first_check_out_time record) (second_check_in_time record)
                          (second_check_out_time record);
          lateDuration =
            (if \<not> falsy (roster_id record) \<and> \<not> falsy (first_check_in_time record)
             then recreation_calculateLateDuration tz getRosterById
                    (the (first_check_in_time record)) (the (roster_id record))
             else Num 0)
      in \<lparr>upd_working_duration_minutes = netWorkingMinutes workingTime,
          upd_break_duration_minutes = breakMinutes workingTime,
          upd_minutes_late = lateDuration\<rparr>)"

subsection \<open>The per-record calculation of \<open>fetchPresentEmployees\<close> (PresentEmployeeReport.tsx)\<close>

text \<open>\<open>x || 0\<close> and \<open>!x\<close> for a stored number that may be null.\<close>

definition or_zero :: "int option \<Rightarrow> jsnum" where
  "or_zero x = (case x of None \<Rightarrow> Num 0 | Some v \<Rightarrow> Num (of_int v))"

fun js_not :: "jsnum \<Rightarrow> bool" where
  "js_not NaN = True"
| "js_not (Num a) = (a = 0)"

record PresentEmployee =
  late_minutes :: jsnum
  break_hours :: jsnum
  working_duration :: jsnum

text \<open>
  The function mapped over the fetched rows, reduced to the three computed fields.
  \<open>clock\<close> is the time value that the two \<open>new Date()\<close> calls read from the wall clock
  when the row is processed; it is not an argument of the source.
\<close>

definition fetchPresentEmployees_record :: "int \<Rightarrow> int \<Rightarrow> attendance \<Rightarrow> PresentEmployee" where
  "fetchPresentEmployees_record tz clock record =
     (let firstCheckIn = first_check_in_time record;
          lateMinutes = (case minutes_late record of
                           Some v \<Rightarrow> (if v \<noteq> 0 \<and> 0 < v then Num (of_int v) else Num 0)
                         | None \<Rightarrow> Num 0);
          breakStored = or_zero (break_duration_minutes record);
          breakMins =
            (if js_not breakStored \<and> \<not> falsy (first_check_out_time record)
                  \<and> \<not> falsy (second_check_in_time record)
             then differenceInMinutes (parseISO tz (the (second_check_in_time record)))
                                      (parseISO tz (the (first_check_out_time record)))
             else breakStored);
          workingStored = or_zero (working_duration_minutes record);
          workingMinutes =
            (if js_not workingStored \<and> \<not> falsy firstCheckIn then
               (let checkInTime = parseISO tz (the firstCheckIn);
                    worked1 =
                      js_add (Num 0)
                        (if \<not> falsy (first_check_out_time record)
                         then differenceInMinutes
                                (parseISO tz (the (first_check_out_time record))) checkInTime
                         else differenceInMinutes (Some clock) checkInTime);
                    worked2 =
                      (if \<not> falsy (second_check_in_time record) then
                         (let secondCheckIn = parseISO tz (the (second_check_in_time record))
                          in js_add worked1
                               (if \<not> falsy (second_check_out_time record)
                                then differenceInMinutes
                                       (parseISO tz (the (second_check_out_time record)))
                                       secondCheckIn
                                else differenceInMinutes (Some clock) secondCheckIn))
                       else worked1)
                in worked2)
             else workingStored)
      in \<lparr>late_minutes = Math_max (Num 0) lateMinutes,
          break_hours = js_div breakMins (Num 60),
          working_duration = workingMinutes\<rparr>)"

text \<open>
  The row's computation reads the clock only when it measures an open session: no stored
  working minutes, a first check-in, and either no first check-out or a second check-in
  without a second check-out.
\<close>

definition measures_open_session :: "attendance \<Rightarrow> bool" where
  "measures_open_session record =
     (js_not (or_zero (working_duration_minutes record))
      \<and> \<not> falsy (first_check_in_time record)
      \<and> (falsy (first_check_out_time record)
          \<or> (\<not> falsy (second_check_in_time record) \<and> falsy (second_check_out_time record))))"

subsection \<open>The view \<open>attendance_display\<close> (SQL)\<close>

text \<open>
  Column values are typed by the store: a \<open>timestamptz\<close> is milliseconds since the
  epoch, a \<open>time\<close> is milliseconds since midnight, both nullable. \<open>DATE_TRUNC('day', _)\<close>
  is midnight in the session's zone \<open>tz\<close>.
\<close>

definition date_trunc_day :: "int \<Rightarrow> int \<Rightarrow> int" where
  "date_trunc_day tz ts = ((ts + tz * 60000) div msPerDay) * msPerDay - tz * 60000"

definition coalesce0 :: "int option \<Rightarrow> int" where
  "coalesce0 x = (case x of None \<Rightarrow> 0 | Some v \<Rightarrow> v)"

text \<open>
  \<open>early_departure_minutes\<close>: the minutes from the first check-out to the roster's end
  on that day, less the threshold, through \<open>GREATEST(0, _)\<close>; 0 without a check-out or
  an end time.
\<close>

definition early_departure_minutes :: "int \<Rightarrow> int option \<Rightarrow> int option \<Rightarrow> int option \<Rightarrow> rat" where
  "early_departure_minutes tz checkOut endTime threshold =
     (case (checkOut, endTime) of
        (Some co, Some et) \<Rightarrow>
          max 0 (of_int ((date_trunc_day tz co + et) - co) / 1000 / 60
                 - of_int (coalesce0 threshold))
      | _ \<Rightarrow> 0)"

subsection \<open>The working-time rule of the specification\<close>

text \<open>
  A timestamp argument as an instant: none when the argument is absent (or does not read).
\<close>

definition instant :: "int \<Rightarrow> string option \<Rightarrow> int option" where
  "instant tz s = (if falsy s then None else new_Date tz (the s))"

definition readable :: "int \<Rightarrow> string option \<Rightarrow> bool" where
  "readable tz s = (falsy s \<or> new_Date tz (the s) \<noteq> None)"

text \<open>
  The specification's worked minutes, in its own words: each session from its check-in to
  its check-out, an open session measured against \<open>now\<close>.
\<close>

definition claimed_workedMinutes ::
  "int \<Rightarrow> int option \<Rightarrow> int option \<Rightarrow> int option \<Rightarrow> int option \<Rightarrow> rat" where
  "claimed_workedMinutes now fi fo si so =
     (case fi of None \<Rightarrow> 0
      | Some a \<Rightarrow> of_int ((case fo of None \<Rightarrow> now | Some b \<Rightarrow> b) - a) / 60000)
     + (case si of None \<Rightarrow> 0
        | Some c \<Rightarrow> of_int ((case so of None \<Rightarrow> now | Some d \<Rightarrow> d) - c) / 60000)"

text \<open>The minutes of a closed session, not below 0; 0 for a session that is not closed.\<close>

definition closed_session_minutes :: "int option \<Rightarrow> int option \<Rightarrow> rat" where
  "closed_session_minutes a b =
     (case (a, b) of (Some x, Some y) \<Rightarrow> max 0 (of_int (y - x) / 60000) | _ \<Rightarrow> 0)"

text \<open>The break of the specification: positive only when the second check-in is later.\<close>

definition claimed_breakMinutes :: "int option \<Rightarrow> int option \<Rightarrow> rat" where
  "claimed_breakMinutes fo si =
     (case (fo, si) of
        (Some b, Some c) \<Rightarrow> (if b < c then of_int (c - b) / 60000 else 0)
      | _ \<Rightarrow> 0)"

subsection \<open>Sample days\<close>

definition full_day :: attendance where
  "full_day = blank_attendance
     \<lparr>first_check_in_time := Some ''2024-03-20T08:00:00Z'',
      first_check_out_time := Some ''2024-03-20T12:00:00Z'',
      second_check_in_time := Some ''2024-03-20T13:00:00Z'',
      second_check_out_time := Some ''2024-03-20T17:00:00Z''\<rparr>"

definition still_working :: attendance where
  "still_working = blank_attendance\<lparr>first_check_in_time := Some ''2024-03-20T08:00:00Z''\<rparr>"

text \<open>
  Two short sessions far apart, in order: 08:00 to 08:10 and 12:00 to 12:05. And a day
  whose timestamps are out of order: in at 12:00, out at 08:01, in again at 06:01.
\<close>

definition short_sessions :: attendance where
  "short_sessions = blank_attendance
     \<lparr>first_check_in_time := Some ''2024-03-20T08:00:00Z'',
      first_check_out_time := Some ''2024-03-20T08:10:00Z'',
      second_check_in_time := Some ''2024-03-20T12:00:00Z'',
      second_check_out_time := Some ''2024-03-20T12:05:00Z''\<rparr>"

definition out_of_order :: attendance where
  "out_of_order = blank_attendance
     \<lparr>first_check_in_time := Some ''2024-03-20T12:00:00Z'',
      first_check_out_time := Some ''2024-03-20T08:01:00Z'',
      second_check_in_time := Some ''2024-03-20T06:01:00Z'',
      second_check_out_time := Some ''2024-03-20T06:01:00Z''\<rparr>"

section \<open>Roster resolution (part_010)\<close>

text \<open>
  The \<open>rosters\<close> table as the store returns its rows, or a store that answers the query
  with an error.
\<close>

datatype rosters_db = Unreachable | Rows "roster list"

text \<open>
  The filters of the query: \<open>employee_id\<close> and \<open>is_active\<close> by equality, \<open>start_date\<close>
  and \<open>end_date\<close> as dates against the day \<open>d\<close>.
\<close>

definition covers :: "roster \<Rightarrow> int \<Rightarrow> bool" where
  "covers r d =
     (case (parse_date (start_date r), parse_date (end_date r)) of
        (Some s, Some e) \<Rightarrow> s \<le> d \<and> d \<le> e
      | _ \<Rightarrow> False)"

definition active_rosters_on :: "roster list \<Rightarrow> string \<Rightarrow> int \<Rightarrow> roster list" where
  "active_rosters_on rows employeeId d =
     filter (\<lambda>r. r_employee_id r = employeeId \<and> is_active r \<and> covers r d) rows"

text \<open>The instant of \<open>created_at\<close>, the key of \<open>order('created_at', { ascending: false })\<close>.\<close>

definition created_key :: "roster \<Rightarrow> int option" where
  "created_key r = new_Date 0 (created_at r)"

text \<open>
  The query: filter, order by \<open>created_at\<close> descending, \<open>limit(1)\<close>. The result is the
  \<open>data\<close> of the response, none when the response carries an \<open>error\<close> (the store is
  unreachable, or it cannot read \<open>date\<close> as a date).
\<close>

definition rosters_query :: "rosters_db \<Rightarrow> string \<Rightarrow> string \<Rightarrow> roster list option" where
  "rosters_query db employeeId date =
     (case db of
        Unreachable \<Rightarrow> None
      | Rows rows \<Rightarrow>
          (case parse_date date of
             None \<Rightarrow> None
           | Some d \<Rightarrow>
               Some (take 1 (rev (sort_key created_key (active_rosters_on rows employeeId d))))))"

text \<open>Every path returns; the catch-all returns null as well.\<close>

definition getEmployeeRosterForDate :: "rosters_db \<Rightarrow> string \<Rightarrow> string \<Rightarrow> roster option" where
  "getEmployeeRosterForDate db employeeId date =
     (case rosters_query db employeeId date of
        None \<Rightarrow> None
      | Some [] \<Rightarrow> None
      | Some (r # _) \<Rightarrow> Some r)"

text \<open>
  The lookup at the head of \<open>RosterStartEditor.handleSave\<close> (part_007): the same
  filters with neither order nor limit, and \<open>existingRosters[0]\<close>, the first row as the
  store returns them. A query error is thrown there; here it is none.
\<close>

definition handleSave_existingRoster :: "rosters_db \<Rightarrow> string \<Rightarrow> string \<Rightarrow> roster option" where
  "handleSave_existingRoster db employeeId date =
     (case db of
        Unreachable \<Rightarrow> None
      | Rows rows \<Rightarrow>
          (case parse_date date of
             None \<Rightarrow> None
           | Some d \<Rightarrow>
               (case active_rosters_on rows employeeId d of
                  [] \<Rightarrow> None
                | r # _ \<Rightarrow> Some r)))"

text \<open>The default shift of a roster on a date.\<close>

definition regular_shift :: "roster \<Rightarrow> string \<Rightarrow> shift_entry" where
  "regular_shift rost date =
     \<lparr>entry_date = Some date, entry_day = None, shift = Some ''regular'',
      time_slot = Some \<lparr>slot_start_time = start_time rost, slot_end_time = end_time rost\<rparr>\<rparr>"

text \<open>Only an entry whose \<open>date\<close> is the given string is found; the first one wins.\<close>

definition getShiftForDate :: "roster \<Rightarrow> string \<Rightarrow> shift_entry" where
  "getShiftForDate rost date =
     (case shift_pattern rost of
        None \<Rightarrow> regular_shift rost date
      | Some pattern \<Rightarrow>
          (if length pattern = 0 then regular_shift rost date
           else (case find (\<lambda>s. entry_date s = Some date) pattern of
                   Some shiftForDate \<Rightarrow> shiftForDate
                 | None \<Rightarrow> regular_shift rost date)))"

text \<open>\<open>a || b\<close> on strings that may be null.\<close>

definition or_else :: "string option \<Rightarrow> string option \<Rightarrow> string option" where
  "or_else a b = (if falsy a then b else a)"

definition calculateRosterBasedLateness ::
  "rosters_db \<Rightarrow> int \<Rightarrow> string \<Rightarrow> string \<Rightarrow> string \<Rightarrow> jsnum" where
  "calculateRosterBasedLateness db tz employeeId checkInTime date =
     (case getEmployeeRosterForDate db employeeId date of
        None \<Rightarrow> Num 0
      | Some rost \<Rightarrow>
          (let sh = getShiftForDate rost date
           in if shift sh = Some ''off'' then Num 0
              else
                (let rosterStartTime =
                       or_else (case time_slot sh of None \<Rightarrow> None | Some ts \<Rightarrow> slot_start_time ts)
                               (start_time rost)
                 in if falsy rosterStartTime then Num 0
                    else
                      (let checkIn = new_Date tz checkInTime;
                           rosterStart' = new_Date tz (date @ ''T'' @ the rosterStartTime);
                           timeDifference = js_sub (getTime checkIn) (getTime rosterStart')
                       in if js_gt timeDifference (Num 0)
                          then Math_floor (js_div timeDifference (Num (1000 * 60)))
                          else Num 0))))"

subsection \<open>Recording the first check-in\<close>

text \<open>
  Modelled from the spec: the error of a refused write. The functions that create
  attendance rows on a scan (\<open>recordAttendance\<close>, \<open>singleScanAttendance\<close>,
  \<open>createFirstCheckIn\<close>) and the table's constraints are not among the sources. In the
  specification the only write that is refused outright is one for an employee that
  cannot be resolved, and nothing is persisted then.
\<close>

datatype write_error = ReferentialIntegrityViolation

text \<open>
  Modelled from the spec: the late minutes as the record holds them, a whole number of
  minutes; the column of the table is not among the sources.
\<close>

definition stored_minutes :: "jsnum \<Rightarrow> int option" where
  "stored_minutes x = (case x of NaN \<Rightarrow> None | Num a \<Rightarrow> Some \<lfloor>a\<rfloor>)"

text \<open>
  Modelled from the spec: the write of a first check-in, in place of the functions named
  above, which are not among the sources. The specification has one attendance record
  per employee and date, created on the first check-in of the day with a reference to
  the roster in effect; a caller of the resolver that gets no roster falls back to a
  lateness of 0 and still writes the record; and a check-in applied to a record that
  already has its first check-in changes nothing. A record of the day without a first
  check-in takes the check-in and keeps its other fields. The roster lookup and the
  lateness are those of part_010; \<open>known_employees\<close> are the ids that resolve to an
  employee and \<open>new_id\<close> is the id that the store gives a new row.
\<close>

definition record_first_check_in ::
  "rosters_db \<Rightarrow> int \<Rightarrow> string list \<Rightarrow> attendance list \<Rightarrow> string \<Rightarrow> string \<Rightarrow> string \<Rightarrow> string
     \<Rightarrow> write_error + attendance list" where
  "record_first_check_in db tz known_employees table new_id employeeId date checkInTime =
     (if employeeId \<notin> set known_employees then Inl ReferentialIntegrityViolation
      else
        (let resolved = getEmployeeRosterForDate db employeeId date;
             lateness = calculateRosterBasedLateness db tz employeeId checkInTime date;
             of_the_day = (\<lambda>a. employee_id a = employeeId \<and> a_date a = date)
         in case find of_the_day table of
              None \<Rightarrow>
                Inr (table @
                  [\<lparr>a_id = new_id, employee_id = employeeId, a_date = date,
                    first_check_in_time = Some checkInTime, first_check_out_time = None,
                    second_check_in_time = None, second_check_out_time = None,
                    minutes_late = stored_minutes lateness,
                    working_duration_minutes = None, break_duration_minutes = None,
                    roster_id = map_option r_id resolved, employees = None\<rparr>])
            | Some a \<Rightarrow>
                (if first_check_in_time a \<noteq> None then Inr table
                 else Inr (map (\<lambda>x. if of_the_day x
                                      then x\<lparr>first_check_in_time := Some checkInTime,
                                             minutes_late := stored_minutes lateness\<rparr>
                                      else x) table))))"

subsection \<open>Weekdays\<close>

text \<open>
  The weekday of a date string, 0 for Sunday, as the \<open>day\<close> of a shift entry counts it.
  The resolver never computes it; it serves to state what the specification asks.
\<close>

definition weekday :: "string \<Rightarrow> int option" where
  "weekday date = map_option (\<lambda>d. (d + 4) mod 7) (parse_date date)"

subsection \<open>Sample rosters\<close>

definition roster_older :: roster where
  "roster_older = roster_0800\<lparr>r_id := ''r-old'', created_at := ''2024-01-01T00:00:00Z''\<rparr>"

definition roster_newer :: roster where
  "roster_newer = roster_0800
     \<lparr>r_id := ''r-new'', start_time := Some ''09:00'', created_at := ''2024-02-01T00:00:00Z''\<rparr>"

text \<open>Sunday 24 March 2024 marked off, once by weekday and once by date.\<close>

definition sunday_off_by_day :: roster where
  "sunday_off_by_day = roster_0800
     \<lparr>shift_pattern := Some [\<lparr>entry_date = None, entry_day = Some 0,
                              shift = Some ''off'', time_slot = None\<rparr>]\<rparr>"

definition sunday_off_by_date :: roster where
  "sunday_off_by_date = roster_0800
     \<lparr>shift_pattern := Some [\<lparr>entry_date = Some ''2024-03-24'', entry_day = None,
                              shift = Some ''off'', time_slot = None\<rparr>]\<rparr>"

section \<open>Attendance insights (AttendanceDataRecreationService.ts)\<close>

text \<open>
  \<open>records.reduce\<close> into an object of arrays: the record joins the array of its key, and
  a key seen for the first time gets a new array. The entries are kept in the order in
  which the keys first appear.
\<close>

definition push_record :: "string \<Rightarrow> 'a \<Rightarrow> (string \<times> 'a list) list \<Rightarrow> (string \<times> 'a list) list" where
  "push_record k r acc =
     (if k \<in> set (map fst acc)
      then map (\<lambda>(k', g). if k' = k then (k', g @ [r]) else (k', g)) acc
      else acc @ [(k, [r])])"

definition group_by :: "('a \<Rightarrow> string) \<Rightarrow> 'a list \<Rightarrow> (string \<times> 'a list) list" where
  "group_by key records = foldl (\<lambda>acc r. push_record (key r) r acc) [] records"

text \<open>\<open>record.employees?.department_id || 'unassigned'\<close>.\<close>

definition deptId :: "attendance \<Rightarrow> string" where
  "deptId r =
     (case employees r of
        None \<Rightarrow> ''unassigned''
      | Some e \<Rightarrow> (if falsy (department_id e) then ''unassigned'' else the (department_id e)))"

text \<open>
  The two filters on \<open>minutes_late\<close>: \<open>!m || m === 0\<close> for on time, \<open>m && m > 0\<close> for
  late. A stored value is an integer or null.
\<close>

definition on_time :: "attendance \<Rightarrow> bool" where
  "on_time r = (case minutes_late r of None \<Rightarrow> True | Some m \<Rightarrow> m = 0)"

definition is_late :: "attendance \<Rightarrow> bool" where
  "is_late r = (case minutes_late r of None \<Rightarrow> False | Some m \<Rightarrow> m \<noteq> 0 \<and> 0 < m)"

text \<open>The quantities computed for one department's records.\<close>

definition totalEmployees :: "attendance list \<Rightarrow> nat" where
  "totalEmployees records = length (remdups (map (\<lambda>r. map_option emp_id (employees r)) records))"

definition totalRecords :: "attendance list \<Rightarrow> nat" where
  "totalRecords records = length records"

definition onTimeRecords :: "attendance list \<Rightarrow> nat" where
  "onTimeRecords records = length (filter on_time records)"

definition lateRecords :: "attendance list \<Rightarrow> nat" where
  "lateRecords records = length (filter is_late records)"

definition totalLateMinutes :: "attendance list \<Rightarrow> int" where
  "totalLateMinutes records = sum_list (map (\<lambda>r. coalesce0 (minutes_late r)) records)"

definition totalWorkingMinutes :: "attendance list \<Rightarrow> int" where
  "totalWorkingMinutes records = sum_list (map (\<lambda>r. coalesce0 (working_duration_minutes r)) records)"

text \<open>
  JavaScript numbers are IEEE 754 doubles. The averages of the aggregation are taken over
  an arbitrary arithmetic: the double of an integer, and the sum, the quotient and the
  product of two doubles, each rounded as that arithmetic rounds it. No law of the
  arithmetic is assumed, so what is proved for every arithmetic holds for doubles. The
  counts and the sums of stored integers above are integers, which a double holds exactly
  below \<open>2^53\<close>.
\<close>

record 'd double_ops =
  dbl :: "int \<Rightarrow> 'd"
  dbl_add :: "'d \<Rightarrow> 'd \<Rightarrow> 'd"
  dbl_div :: "'d \<Rightarrow> 'd \<Rightarrow> 'd"
  dbl_mul :: "'d \<Rightarrow> 'd \<Rightarrow> 'd"

text \<open>
  \<open>records.reduce((sum, r) => sum + ((r.working_duration_minutes || 0) / 60), start)\<close>:
  the hours of each record, one quotient per record, added to the running sum in the
  order of the records.
\<close>

definition sumWorkingHours :: "'d double_ops \<Rightarrow> 'd \<Rightarrow> attendance list \<Rightarrow> 'd" where
  "sumWorkingHours ar start records =
     foldl (\<lambda>sum r. dbl_add ar sum
                       (dbl_div ar (dbl ar (coalesce0 (working_duration_minutes r))) (dbl ar 60)))
           start records"

record 'd department_stat =
  stat_totalEmployees :: nat
  averageAttendance :: 'd
  averageLateMinutes :: 'd
  complianceRate :: 'd

definition department_stat_of :: "'d double_ops \<Rightarrow> attendance list \<Rightarrow> 'd department_stat" where
  "department_stat_of ar records =
     \<lparr>stat_totalEmployees = totalEmployees records,
      averageAttendance =
        dbl_mul ar (dbl_div ar (dbl ar (int (totalRecords records)))
                               (dbl ar (int (totalEmployees records))))
                   (dbl ar 100),
      averageLateMinutes =
        dbl_div ar (dbl ar (totalLateMinutes records)) (dbl ar (int (totalRecords records))),
      complianceRate =
        dbl_mul ar (dbl_div ar (dbl ar (int (onTimeRecords records)))
                               (dbl ar (int (totalRecords records))))
                   (dbl ar 100)\<rparr>"

record 'd trend =
  trend_date :: string
  onTimeCount :: nat
  lateCount :: nat
  averageWorkingHours :: 'd

definition trend_of :: "'d double_ops \<Rightarrow> string \<Rightarrow> attendance list \<Rightarrow> 'd trend" where
  "trend_of ar d records =
     \<lparr>trend_date = d,
      onTimeCount = onTimeRecords records,
      lateCount = lateRecords records,
      averageWorkingHours =
        dbl_div ar (sumWorkingHours ar (dbl ar 0) records) (dbl ar (int (length records)))\<rparr>"

record 'd insights =
  departmentStats :: "(string \<times> 'd department_stat) list"
  trends :: "'d trend list"

text \<open>
  The function after its query, on the rows the query returned. Every group has at least
  one record, so no average divides by 0. The trends are sorted by date; on date strings
  \<open>localeCompare\<close> is the order of the characters.
\<close>

definition generateAttendanceInsights :: "'d double_ops \<Rightarrow> attendance list \<Rightarrow> 'd insights" where
  "generateAttendanceInsights ar records =
     (if length records = 0 then \<lparr>departmentStats = [], trends = []\<rparr>
      else
        \<lparr>departmentStats =
           map (\<lambda>(dept, rs). (dept, department_stat_of ar rs)) (group_by deptId records),
         trends =
           sort_key trend_date (map (\<lambda>(d, rs). trend_of ar d rs) (group_by a_date records))\<rparr>)"

text \<open>
  The arithmetic of the rationals, to evaluate the aggregation on the sample records
  below. Every number that arises there is a multiple of 1/4 of small size, which a double
  holds exactly, so double arithmetic gives the same values.
\<close>

definition exact_arithmetic :: "rat double_ops" where
  "exact_arithmetic = \<lparr>dbl = of_int, dbl_add = (+), dbl_div = (/), dbl_mul = (*)\<rparr>"

subsection \<open>Partial sums\<close>

text \<open>
  The sums from which the reported statistics are formed, with the set of employee ids
  from which the distinct employees are counted, and their addition. The code has no such
  operation; it serves to state what merging could mean.
\<close>

record partial_sums =
  sum_employees :: "string option set"
  sum_records :: nat
  sum_on_time :: nat
  sum_late :: nat
  sum_late_minutes :: int
  sum_working_minutes :: int

definition partial_sums_of :: "attendance list \<Rightarrow> partial_sums" where
  "partial_sums_of records =
     \<lparr>sum_employees = set (map (\<lambda>r. map_option emp_id (employees r)) records),
      sum_records = totalRecords records, sum_on_time = onTimeRecords records,
      sum_late = lateRecords records, sum_late_minutes = totalLateMinutes records,
      sum_working_minutes = totalWorkingMinutes records\<rparr>"

definition merge_sums :: "partial_sums \<Rightarrow> partial_sums \<Rightarrow> partial_sums" where
  "merge_sums a b =
     \<lparr>sum_employees = sum_employees a \<union> sum_employees b,
      sum_records = sum_records a + sum_records b,
      sum_on_time = sum_on_time a + sum_on_time b,
      sum_late = sum_late a + sum_late b,
      sum_late_minutes = sum_late_minutes a + sum_late_minutes b,
      sum_working_minutes = sum_working_minutes a + sum_working_minutes b\<rparr>"

text \<open>
  The statistics of a department formed from partial sums, and those of a date formed
  from partial sums and a running sum of working hours.
\<close>

definition department_stat_from :: "'d double_ops \<Rightarrow> partial_sums \<Rightarrow> 'd department_stat" where
  "department_stat_from ar s =
     \<lparr>stat_totalEmployees = card (sum_employees s),
      averageAttendance =
        dbl_mul ar (dbl_div ar (dbl ar (int (sum_records s)))
                               (dbl ar (int (card (sum_employees s)))))
                   (dbl ar 100),
      averageLateMinutes =
        dbl_div ar (dbl ar (sum_late_minutes s)) (dbl ar (int (sum_records s))),
      complianceRate =
        dbl_mul ar (dbl_div ar (dbl ar (int (sum_on_time s))) (dbl ar (int (sum_records s))))
                   (dbl ar 100)\<rparr>"

definition trend_from :: "'d double_ops \<Rightarrow> string \<Rightarrow> partial_sums \<Rightarrow> 'd \<Rightarrow> 'd trend" where
  "trend_from ar d s hours =
     \<lparr>trend_date = d, onTimeCount = sum_on_time s, lateCount = sum_late s,
      averageWorkingHours = dbl_div ar hours (dbl ar (int (sum_records s)))\<rparr>"

subsection \<open>Sample records\<close>

definition employee_1 :: employee where
  "employee_1 = \<lparr>emp_id = ''e1'', department_id = Some ''d1''\<rparr>"

definition employee_2 :: employee where
  "employee_2 = \<lparr>emp_id = ''e2'', department_id = Some ''d1''\<rparr>"

definition day1_e1 :: attendance where
  "day1_e1 = blank_attendance
     \<lparr>a_id := ''a1'', employee_id := ''e1'', a_date := ''2024-03-20'',
      minutes_late := Some 0, working_duration_minutes := Some 480,
      employees := Some employee_1\<rparr>"

definition day2_e1 :: attendance where
  "day2_e1 = blank_attendance
     \<lparr>a_id := ''a2'', employee_id := ''e1'', a_date := ''2024-03-21'',
      minutes_late := Some 0, working_duration_minutes := Some 480,
      employees := Some employee_1\<rparr>"

definition day2_e2 :: attendance where
  "day2_e2 = blank_attendance
     \<lparr>a_id := ''a3'', employee_id := ''e2'', a_date := ''2024-03-21'',
      minutes_late := Some 0, working_duration_minutes := Some 480,
      employees := Some employee_2\<rparr>"

definition day2_late :: attendance where
  "day2_late = blank_attendance
     \<lparr>a_id := ''a4'', employee_id := ''e2'', a_date := ''2024-03-21'',
      minutes_late := Some 20, working_duration_minutes := Some 450,
      employees := Some employee_2\<rparr>"

definition day1_unknown :: attendance where
  "day1_unknown = blank_attendance
     \<lparr>a_id := ''a5'', employee_id := ''e2'', a_date := ''2024-03-20'',
      minutes_late := None, working_duration_minutes := None,
      employees := Some employee_2\<rparr>"

definition day1_negative :: attendance where
  "day1_negative = blank_attendance
     \<lparr>a_id := ''a6'', employee_id := ''e1'', a_date := ''2024-03-20'',
      minutes_late := Some (- 5), employees := Some employee_1\<rparr>"

text \<open>The merged partial sums of one department, and of one date, over two record lists.\<close>

definition dept_sums :: "string \<Rightarrow> attendance list \<Rightarrow> attendance list \<Rightarrow> partial_sums" where
  "dept_sums dept A B =
     merge_sums (partial_sums_of (filter (\<lambda>r. deptId r = dept) A))
                (partial_sums_of (filter (\<lambda>r. deptId r = dept) B))"

definition date_sums :: "string \<Rightarrow> attendance list \<Rightarrow> attendance list \<Rightarrow> partial_sums" where
  "date_sums d A B =
     merge_sums (partial_sums_of (filter (\<lambda>r. a_date r = d) A))
                (partial_sums_of (filter (\<lambda>r. a_date r = d) B))"

text \<open>
  The running sum of the working hours of one date over two record lists: the sum over
  the first list, continued over the second.
\<close>

definition date_hours :: "'d double_ops \<Rightarrow> string \<Rightarrow> attendance list \<Rightarrow> attendance list \<Rightarrow> 'd" where
  "date_hours ar d A B =
     sumWorkingHours ar (sumWorkingHours ar (dbl ar 0) (filter (\<lambda>r. a_date r = d) A))
                        (filter (\<lambda>r. a_date r = d) B)"

section \<open>Properties of the lateness calculators\<close>

lemma floor_minutes: "\<lfloor>(of_int d :: rat) / 60000\<rfloor> = d div 60000"
  using floor_divide_of_int_eq [of d 60000, where ?'a = rat] by simp

lemma ceiling_minutes_nonpos: "d \<le> 0 \<Longrightarrow> \<lceil>(of_int d :: rat) / 60000\<rceil> \<le> 0"
  by (simp add: divide_le_0_iff)


text \<open>Truncation towards zero followed by \<open>Math.max(0, _)\<close> is the floor, not below 0.\<close>

lemma max_trunc_minutes:
  "Math_max (Num 0) (Math_trunc (js_div (Num (of_int d)) (Num 60000)))
     = Num (of_int (max 0 (d div 60000)))"
proof (cases "0 \<le> d")
  case True
  then have "0 \<le> d div 60000" by (simp add: pos_imp_zdiv_nonneg_iff)
  with True show ?thesis by (simp add: floor_minutes max_def)
next
  case False
  then have neg: "d < 0" by simp
  then have a: "max 0 (d div 60000) = 0" by (simp add: neg_imp_zdiv_neg_iff max_def)
  have "\<lceil>(of_int d :: rat) / 60000\<rceil> \<le> 0" using neg by (simp add: ceiling_minutes_nonpos)
  then have "(of_int \<lceil>(of_int d :: rat) / 60000\<rceil> :: rat) \<le> 0" by linarith
  then have b: "max (0::rat) (of_int \<lceil>(of_int d :: rat) / 60000\<rceil>) = 0"
    by (simp only: max_absorb1)
  have c: "\<not> (0 \<le> (of_int d :: rat) / 60000)" using neg by (simp add: zero_le_divide_iff)
  have "Math_trunc (js_div (Num (of_int d)) (Num 60000))
          = Num (of_int \<lceil>(of_int d :: rat) / 60000\<rceil>)"
    using c by simp
  then show ?thesis by (simp only: Math_max.simps a b of_int_0)
qed


text \<open>The value of \<open>calculateLateDuration\<close> when both strings can be read.\<close>

lemma calculateLateDuration_value:
  assumes "start_time rost = Some st"
    and "parseISO tz ci = Some t" and "rosterStart tz (Some t) st = Some rs"
  shows "calculateLateDuration tz (TimeString ci) rost =
     \<lparr>isLate = (0 < max 0 ((t - rs) div 60000)),
      lateMinutes = Num (of_int (max 0 ((t - rs) div 60000))), gracePeriodUsed = 0\<rparr>"
proof -
  have "Math_max (Num 0) (differenceInMinutes (Some t) (Some rs))
          = Num (of_int (max 0 ((t - rs) div 60000)))"
    using max_trunc_minutes [of "t - rs"] by (simp add: differenceInMinutes_def getTime_def)
  then show ?thesis
    using assms by (simp add: calculateLateDuration_def Let_def)
qed

text \<open>
  The roster start of \<open>calculateLateness\<close>, spelled out for a date string of ten
  characters and a \<open>start_time\<close> without zone designator: the UTC calendar day of the
  check-in at the local wall-clock time \<open>start_time\<close>.
\<close>

lemma rosterStartDateTime_value:
  assumes "length (toISOString_date t) = 10"
    and "parse_date (toISOString_date t) = Some day"
    and "split_zone st = (st, None)" and "parse_clock st = Some ms"
  shows "rosterStartDateTime tz t st = TimeClip (day * msPerDay + ms - tz * 60000)"
  using assms by (simp add: rosterStartDateTime_def new_Date_def read_iso_def)

text \<open>
  The two calculators differ away from UTC. In a zone five and a half hours east, a
  check-in at 04:00 local time falls on the previous UTC day: \<open>calculateLateness\<close>
  measures it against the 08:00 of that previous day, \<open>calculateLateDuration\<close> against
  the 08:00 still to come.
\<close>

lemma calculators_differ_across_midnight:
  "lateMinutes (calculateLateness 330
      (blank_attendance\<lparr>first_check_in_time := Some ''2024-03-20T04:00:00+05:30''\<rparr>)
      roster_0800) = Num 1200
   \<and> lateMinutes (calculateLateDuration 330 (TimeString ''2024-03-20T04:00:00+05:30'')
      roster_0800) = Num 0"
  by code_simp

text \<open>
  The roster start of \<open>calculateLateDuration\<close>, spelled out: the local calendar day of
  the check-in at the hour and minute of \<open>start_time\<close>.
\<close>

lemma rosterStart_value:
  assumes "split_colon st = a # b # rest"
    and "Number a = Num (of_int h)" and "Number b = Num (of_int m)"
  shows "rosterStart tz (Some t) st =
           TimeClip (((t + tz * 60000) div msPerDay) * msPerDay
                     + h * 3600000 + m * 60000 - tz * 60000)"
  using assms by (simp add: rosterStart_def setHours_def element_def ToInteger_def Let_def)




section \<open>Properties of the working-time calculators\<close>

lemma minutes_between_value:
  assumes "new_Date tz a = Some x" and "new_Date tz b = Some y"
  shows "minutes_between tz a b = Num (max 0 (of_int (y - x) / 60000))"
  using assms by (simp add: minutes_between_def getTime_def)

lemma instant_falsy: "falsy s \<Longrightarrow> instant tz s = None"
  by (simp add: instant_def)

lemma instant_readable:
  assumes "readable tz s" and "\<not> falsy s"
  obtains x where "new_Date tz (the s) = Some x" and "instant tz s = Some x"
  using assms by (auto simp: readable_def instant_def)

text \<open>One guarded term of \<open>calculateWorkingTime\<close>: a session, or the break.\<close>

lemma guarded_minutes:
  assumes "readable tz a" and "readable tz b"
  shows "(if \<not> falsy a \<and> \<not> falsy b then minutes_between tz (the a) (the b) else Num 0)
           = Num (closed_session_minutes (instant tz a) (instant tz b))"
proof (cases "\<not> falsy a \<and> \<not> falsy b")
  case True
  then obtain x y where x: "new_Date tz (the a) = Some x" "instant tz a = Some x"
    and y: "new_Date tz (the b) = Some y" "instant tz b = Some y"
    using assms by (metis instant_readable)
  show ?thesis
    using True x y by (simp add: minutes_between_value closed_session_minutes_def)
next
  case False
  then have "instant tz a = None \<or> instant tz b = None"
    by (auto simp: instant_falsy)
  then have "closed_session_minutes (instant tz a) (instant tz b) = 0"
    by (auto simp: closed_session_minutes_def split: option.splits)
  with False show ?thesis by auto
qed

lemma calculateWorkingTime_value:
  assumes "readable tz fi" and "readable tz fo" and "readable tz si" and "readable tz so"
  shows "calculateWorkingTime tz fi fo si so =
     \<lparr>totalMinutes = Num (closed_session_minutes (instant tz fi) (instant tz fo)
                          + closed_session_minutes (instant tz si) (instant tz so)),
      breakMinutes = Num (closed_session_minutes (instant tz fo) (instant tz si)),
      netWorkingMinutes = Num (closed_session_minutes (instant tz fi) (instant tz fo)
                          + closed_session_minutes (instant tz si) (instant tz so)
                          - closed_session_minutes (instant tz fo) (instant tz si))\<rparr>"
proof -
  let ?s1 = "closed_session_minutes (instant tz fi) (instant tz fo)"
  let ?s2 = "closed_session_minutes (instant tz si) (instant tz so)"
  let ?br = "closed_session_minutes (instant tz fo) (instant tz si)"
  have g1: "(if \<not> falsy fi \<and> \<not> falsy fo
             then js_add (Num 0) (minutes_between tz (the fi) (the fo)) else Num 0) = Num ?s1"
    using guarded_minutes [OF assms(1) assms(2)] by (auto split: if_splits)
  have g2: "(if \<not> falsy si \<and> \<not> falsy so
             then js_add (Num ?s1) (minutes_between tz (the si) (the so)) else Num ?s1)
              = Num (?s1 + ?s2)"
    using guarded_minutes [OF assms(3) assms(4)] by (auto split: if_splits)
  have g3: "(if \<not> falsy fo \<and> \<not> falsy si
             then minutes_between tz (the fo) (the si) else Num 0) = Num ?br"
    by (rule guarded_minutes [OF assms(2) assms(3)])
  show ?thesis
    unfolding calculateWorkingTime_def Let_def g1 g2 g3 by simp
qed

lemma claimed_break_is_clamped:
  "claimed_breakMinutes fo si = closed_session_minutes fo si"
  by (auto simp: claimed_breakMinutes_def closed_session_minutes_def max_def
           split: option.splits)

lemma closed_session_minutes_nonneg: "0 \<le> closed_session_minutes a b"
  by (auto simp: closed_session_minutes_def split: option.splits)

text \<open>
  Claim C2, as the code has it. For readable timestamps \<open>calculateWorkingTime\<close> returns
  the break as the specification states it, and as worked minutes (\<open>totalMinutes\<close>) the
  sum of the closed sessions, each not below 0: a session without its check-out adds
  nothing, since the function takes no current time.
\<close>

theorem calculateWorkingTime_closed_sessions:
  assumes "readable tz fi" and "readable tz fo" and "readable tz si" and "readable tz so"
  shows "breakMinutes (calculateWorkingTime tz fi fo si so)
           = Num (claimed_breakMinutes (instant tz fo) (instant tz si))
       \<and> totalMinutes (calculateWorkingTime tz fi fo si so)
           = Num (closed_session_minutes (instant tz fi) (instant tz fo)
                  + closed_session_minutes (instant tz si) (instant tz so))"
proof
  have "breakMinutes (calculateWorkingTime tz fi fo si so)
          = Num (closed_session_minutes (instant tz fo) (instant tz si))"
    by (simp add: calculateWorkingTime_value [OF assms])
  also have "closed_session_minutes (instant tz fo) (instant tz si)
          = claimed_breakMinutes (instant tz fo) (instant tz si)"
    by (rule claimed_break_is_clamped [symmetric])
  finally show "breakMinutes (calculateWorkingTime tz fi fo si so)
          = Num (claimed_breakMinutes (instant tz fo) (instant tz si))" .
next
  show "totalMinutes (calculateWorkingTime tz fi fo si so)
          = Num (closed_session_minutes (instant tz fi) (instant tz fo)
                 + closed_session_minutes (instant tz si) (instant tz so))"
    by (simp add: calculateWorkingTime_value [OF assms])
qed

text \<open>The scenario of the specification: 08:00 to 12:00 and 13:00 to 17:00.\<close>

theorem calculateWorkingTime_closed_sessions_witness:
  "readable 0 (Some ''2024-03-20T08:00:00Z'') \<and> readable 0 (Some ''2024-03-20T12:00:00Z'')
   \<and> readable 0 (Some ''2024-03-20T13:00:00Z'') \<and> readable 0 (Some ''2024-03-20T17:00:00Z'')
   \<and> breakMinutes (calculateWorkingTime 0 (Some ''2024-03-20T08:00:00Z'')
        (Some ''2024-03-20T12:00:00Z'') (Some ''2024-03-20T13:00:00Z'')
        (Some ''2024-03-20T17:00:00Z'')) = Num 60
   \<and> totalMinutes (calculateWorkingTime 0 (Some ''2024-03-20T08:00:00Z'')
        (Some ''2024-03-20T12:00:00Z'') (Some ''2024-03-20T13:00:00Z'')
        (Some ''2024-03-20T17:00:00Z'')) = Num 480"
proof -
  have r1: "readable 0 (Some ''2024-03-20T08:00:00Z'')" by code_simp
  have r2: "readable 0 (Some ''2024-03-20T12:00:00Z'')" by code_simp
  have r3: "readable 0 (Some ''2024-03-20T13:00:00Z'')" by code_simp
  have r4: "readable 0 (Some ''2024-03-20T17:00:00Z'')" by code_simp
  have i1: "instant 0 (Some ''2024-03-20T08:00:00Z'') = Some 1710921600000" by code_simp
  have i2: "instant 0 (Some ''2024-03-20T12:00:00Z'') = Some 1710936000000" by code_simp
  have i3: "instant 0 (Some ''2024-03-20T13:00:00Z'') = Some 1710939600000" by code_simp
  have i4: "instant 0 (Some ''2024-03-20T17:00:00Z'') = Some 1710954000000" by code_simp
  from calculateWorkingTime_closed_sessions [OF r1 r2 r3 r4] r1 r2 r3 r4
  show ?thesis
    by (simp add: i1 i2 i3 i4 claimed_breakMinutes_def closed_session_minutes_def)
qed

text \<open>
  Claim C2 as stated fails: after a check-in at 08:00 and nothing else, the stated rule
  measured at 09:00 gives 60 worked minutes and \<open>calculateWorkingTime\<close> returns 0.
\<close>

theorem open_session_counterexample:
  "new_Date 0 ''2024-03-20T08:00:00Z'' = Some 1710921600000
   \<and> new_Date 0 ''2024-03-20T09:00:00Z'' = Some 1710925200000
   \<and> claimed_workedMinutes 1710925200000 (Some 1710921600000) None None None = 60
   \<and> totalMinutes (calculateWorkingTime 0 (Some ''2024-03-20T08:00:00Z'') None None None) = Num 0"
  by code_simp

lemma early_departure_minutes_nonneg: "0 \<le> early_departure_minutes tz checkOut endTime threshold"
  by (auto simp: early_departure_minutes_def split: option.splits)

text \<open>Nothing that passes through \<open>Math.max(0, _)\<close> is negative, \<open>NaN\<close> included.\<close>

lemma max0_not_negative: "\<not> js_negative (Math_max (Num 0) x)"
  by (cases x) simp_all

lemma js_add_not_negative:
  "\<not> js_negative a \<Longrightarrow> \<not> js_negative b \<Longrightarrow> \<not> js_negative (js_add a b)"
  by (cases a; cases b) simp_all

lemma minutes_between_not_negative: "\<not> js_negative (minutes_between tz a b)"
  by (simp add: minutes_between_def max0_not_negative)

lemma calculateWorkingTime_not_negative:
  "\<not> js_negative (totalMinutes (calculateWorkingTime tz fi fo si so))
   \<and> \<not> js_negative (breakMinutes (calculateWorkingTime tz fi fo si so))"
  by (simp add: calculateWorkingTime_def Let_def js_add_not_negative minutes_between_not_negative)

lemma calculateLateDuration_not_negative:
  "\<not> js_negative (lateMinutes (calculateLateDuration tz checkInTime rost))"
  by (cases "start_time rost") (simp_all add: calculateLateDuration_def Let_def max0_not_negative)

lemma floor_of_positive_difference:
  "js_gt x (Num 0) \<Longrightarrow> js_nonneg (Math_floor (js_div x (Num 60000)))"
  by (cases x) simp_all

text \<open>\<open>calculateLateness\<close> never returns \<open>NaN\<close>: it divides only a positive difference.\<close>

lemma calculateLateness_nonneg: "js_nonneg (lateMinutes (calculateLateness tz att rost))"
  by (auto simp: calculateLateness_def defaultResult_def Let_def floor_of_positive_difference
           split: option.splits)

text \<open>
  What passes through a clamp stays at 0 or above: the sum of the sessions and the break
  of \<open>calculateWorkingTime\<close>, the late minutes of the two lateness calculators, the
  early-departure minutes of the view.
\<close>

lemma clamped_metrics_not_negative:
  "\<not> js_negative (totalMinutes (calculateWorkingTime tz fi fo si so))
   \<and> \<not> js_negative (breakMinutes (calculateWorkingTime tz fi fo si so))
   \<and> \<not> js_negative (lateMinutes (calculateLateDuration tz checkInTime rost))
   \<and> js_nonneg (lateMinutes (calculateLateness tz att rost))
   \<and> 0 \<le> early_departure_minutes tz checkOut endTime threshold
   \<and> (readable tz fi \<and> readable tz fo \<and> readable tz si \<and> readable tz so \<longrightarrow>
        js_nonneg (totalMinutes (calculateWorkingTime tz fi fo si so))
        \<and> js_nonneg (breakMinutes (calculateWorkingTime tz fi fo si so)))
   \<and> (parseISO tz ci = Some t \<and> start_time rost = Some st
        \<and> rosterStart tz (Some t) st = Some rs \<longrightarrow>
        js_nonneg (lateMinutes (calculateLateDuration tz (TimeString ci) rost)))"
proof -
  have w: "readable tz fi \<and> readable tz fo \<and> readable tz si \<and> readable tz so \<longrightarrow>
        js_nonneg (totalMinutes (calculateWorkingTime tz fi fo si so))
        \<and> js_nonneg (breakMinutes (calculateWorkingTime tz fi fo si so))"
  proof
    assume r: "readable tz fi \<and> readable tz fo \<and> readable tz si \<and> readable tz so"
    then have "calculateWorkingTime tz fi fo si so =
     \<lparr>totalMinutes = Num (closed_session_minutes (instant tz fi) (instant tz fo)
                          + closed_session_minutes (instant tz si) (instant tz so)),
      breakMinutes = Num (closed_session_minutes (instant tz fo) (instant tz si)),
      netWorkingMinutes = Num (closed_session_minutes (instant tz fi) (instant tz fo)
                          + closed_session_minutes (instant tz si) (instant tz so)
                          - closed_session_minutes (instant tz fo) (instant tz si))\<rparr>"
      by (intro calculateWorkingTime_value) simp_all
    then show "js_nonneg (totalMinutes (calculateWorkingTime tz fi fo si so))
        \<and> js_nonneg (breakMinutes (calculateWorkingTime tz fi fo si so))"
      by (simp add: closed_session_minutes_nonneg)
  qed
  have d: "parseISO tz ci = Some t \<and> start_time rost = Some st
        \<and> rosterStart tz (Some t) st = Some rs \<longrightarrow>
        js_nonneg (lateMinutes (calculateLateDuration tz (TimeString ci) rost))"
    using calculateLateDuration_value [of rost st tz ci t rs] by auto
  show ?thesis
    using w d calculateWorkingTime_not_negative [of tz fi fo si so]
      calculateLateDuration_not_negative [of tz checkInTime rost]
      calculateLateness_nonneg [of tz att rost]
      early_departure_minutes_nonneg [of tz checkOut endTime threshold]
    by blast
qed

text \<open>
  Claim C3 fails for the worked minutes and the break that are stored and shown.
  \<open>calculateWorkingTime\<close> clamps each session and the break with \<open>Math.max(0, _)\<close>
  but not its third field, \<open>netWorkingMinutes\<close>, the total less the break, which
  \<open>recreateAttendanceData\<close> writes to \<open>working_duration_minutes\<close>: on a day in order
  with the sessions 08:00 to 08:10 and 12:00 to 12:05 it is 15 less 230, that is -215.
  The report clamps its late minutes but neither its break nor its worked minutes: with
  the timestamps out of order (in at 12:00, out at 08:01, in again at 06:01) it shows a
  break of -2 hours and -239 worked minutes.
\<close>

theorem worked_minutes_not_clamped:
  "calculateWorkingTime 0 (Some ''2024-03-20T08:00:00Z'') (Some ''2024-03-20T08:10:00Z'')
     (Some ''2024-03-20T12:00:00Z'') (Some ''2024-03-20T12:05:00Z'')
   = \<lparr>totalMinutes = Num 15, breakMinutes = Num 230, netWorkingMinutes = Num (- 215)\<rparr>
   \<and> recreateAttendanceData_record 0 (\<lambda>rosterId. None) short_sessions
     = \<lparr>upd_working_duration_minutes = Num (- 215), upd_break_duration_minutes = Num 230,
        upd_minutes_late = Num 0\<rparr>
   \<and> fetchPresentEmployees_record 0 1710950400000 out_of_order
     = \<lparr>late_minutes = Num 0, break_hours = Num (- 2), working_duration = Num (- 239)\<rparr>"
  by code_simp

text \<open>
  Claim C7 fails for \<open>calculateLateDuration\<close>. A \<open>start_time\<close> that is not a time does not
  throw, so the \<open>catch\<close> with the safe defaults is never reached: the pieces of the string
  become \<open>NaN\<close>, the roster start is an Invalid Date and \<open>lateMinutes\<close> is \<open>NaN\<close>, not 0.
  \<open>calculateLateness\<close> returns 0 on the same input.
\<close>

theorem malformed_start_time_gives_NaN:
  "lateMinutes (calculateLateDuration 0 (TimeString ''2024-03-20T08:20:00Z'')
       (roster_0800\<lparr>start_time := Some ''abc''\<rparr>)) = NaN
   \<and> lateMinutes (calculateLateDuration 0 (TimeString ''2024-03-20T08:20:00Z'')
       (roster_0800\<lparr>start_time := Some ''08''\<rparr>)) = NaN
   \<and> lateMinutes (calculateLateDuration 0 (TimeString ''2024-03-20T08:20:00Z'')
       (roster_0800\<lparr>start_time := None\<rparr>)) = Num 0
   \<and> lateMinutes (calculateLateness 0 check_in_0820 (roster_0800\<lparr>start_time := Some ''abc''\<rparr>)) = Num 0"
  by code_simp

section \<open>The clock\<close>

lemma report_late_and_break_ignore_clock:
  "late_minutes (fetchPresentEmployees_record tz c1 record)
     = late_minutes (fetchPresentEmployees_record tz c2 record)
   \<and> break_hours (fetchPresentEmployees_record tz c1 record)
     = break_hours (fetchPresentEmployees_record tz c2 record)"
  by (simp add: fetchPresentEmployees_record_def Let_def)

lemma report_working_ignores_clock:
  assumes "\<not> measures_open_session record"
  shows "working_duration (fetchPresentEmployees_record tz c1 record)
           = working_duration (fetchPresentEmployees_record tz c2 record)"
  using assms
  by (auto simp: fetchPresentEmployees_record_def measures_open_session_def Let_def)

text \<open>
  An open first session is measured against the reading of the clock, in full minutes.
\<close>

lemma report_open_first_session:
  assumes "js_not (or_zero (working_duration_minutes record))"
    and "first_check_in_time record = Some ci" and "parseISO tz ci = Some t"
    and "first_check_out_time record = None" and "second_check_in_time record = None"
    and "t \<le> clock"
  shows "working_duration (fetchPresentEmployees_record tz clock record)
           = Num (of_int ((clock - t) div 60000))"
proof -
  have "ci \<noteq> []" using assms(3) by (auto simp: parseISO_def read_iso_def)
  then have nf: "\<not> falsy (first_check_in_time record)"
    using assms(2) by (simp add: falsy_def)
  have "differenceInMinutes (Some clock) (Some t) = Num (of_int ((clock - t) div 60000))"
    using assms(6) floor_minutes [of "clock - t"]
    by (simp add: differenceInMinutes_def getTime_def)
  then show ?thesis
    using assms(1-5) nf by (simp add: fetchPresentEmployees_record_def Let_def falsy_def)
qed

text \<open>
  Claim C8, as the code has it. The report's calculation reads the wall clock itself. Its
  late minutes and break never depend on the reading, and its worked minutes are the
  same at any two readings unless an open session is measured.
\<close>

theorem clock_matters_only_for_open_sessions:
  "late_minutes (fetchPresentEmployees_record tz c1 record)
     = late_minutes (fetchPresentEmployees_record tz c2 record)
   \<and> break_hours (fetchPresentEmployees_record tz c1 record)
     = break_hours (fetchPresentEmployees_record tz c2 record)
   \<and> (\<not> measures_open_session record \<longrightarrow>
        fetchPresentEmployees_record tz c1 record = fetchPresentEmployees_record tz c2 record)"
  using report_late_and_break_ignore_clock [of tz c1 "record" c2]
        report_working_ignores_clock [of "record" tz c1 c2]
  by (auto intro: PresentEmployee.equality)

theorem clock_matters_only_for_open_sessions_witness:
  "\<not> measures_open_session full_day
   \<and> fetchPresentEmployees_record 0 1710925200000 full_day
       = fetchPresentEmployees_record 0 1710928800000 full_day
   \<and> working_duration (fetchPresentEmployees_record 0 1710925200000 full_day) = Num 480"
proof -
  have c: "\<not> measures_open_session full_day" by code_simp
  have v: "working_duration (fetchPresentEmployees_record 0 1710925200000 full_day) = Num 480"
    by code_simp
  from clock_matters_only_for_open_sessions [of 0 1710925200000 full_day 1710928800000] c v
  show ?thesis by simp
qed

text \<open>
  Claim C8 as stated fails: the same row, with a check-in at 08:00 and nothing else,
  processed at 09:00 and at 10:00 gives 60 and 120 worked minutes.
\<close>

theorem wall_clock_counterexample:
  "measures_open_session still_working
   \<and> working_duration (fetchPresentEmployees_record 0 1710925200000 still_working) = Num 60
   \<and> working_duration (fetchPresentEmployees_record 0 1710928800000 still_working) = Num 120"
  by code_simp

section \<open>Properties of roster resolution\<close>

lemma sorted_map_last_greatest:
  assumes "sorted (map f xs)" and "x \<in> set xs"
  shows "f x \<le> f (last xs)"
proof -
  from assms(2) obtain i where i: "i < length xs" "xs ! i = x"
    by (auto simp: in_set_conv_nth)
  then have ne: "xs \<noteq> []" by auto
  have "map f xs ! i \<le> map f xs ! (length xs - 1)"
    using assms(1) i(1) by (intro sorted_nth_mono) auto
  then show ?thesis
    using i ne by (simp add: last_conv_nth)
qed

lemma take_1_rev: "xs \<noteq> [] \<Longrightarrow> take (Suc 0) (rev xs) = [last xs]"
  by (cases xs rule: rev_cases) simp_all

text \<open>With at least one matching roster, the query returns one with the greatest key.\<close>

lemma rosters_query_latest:
  assumes "parse_date date = Some d" and "active_rosters_on rows employeeId d \<noteq> []"
  shows "rosters_query (Rows rows) employeeId date
           = Some [last (sort_key created_key (active_rosters_on rows employeeId d))]"
proof -
  have "sort_key created_key (active_rosters_on rows employeeId d) \<noteq> []"
    using assms(2) by (metis length_sort length_0_conv)
  then show ?thesis
    using assms(1) by (simp add: rosters_query_def take_1_rev)
qed

lemma resolver_latest:
  assumes "parse_date date = Some d" and "active_rosters_on rows employeeId d \<noteq> []"
  shows "\<exists>r. getEmployeeRosterForDate (Rows rows) employeeId date = Some r
             \<and> r \<in> set (active_rosters_on rows employeeId d)
             \<and> (\<forall>r' \<in> set (active_rosters_on rows employeeId d). created_key r' \<le> created_key r)"
proof -
  let ?m = "active_rosters_on rows employeeId d"
  let ?s = "sort_key created_key ?m"
  have ne: "?s \<noteq> []" using assms(2) by (metis length_sort length_0_conv)
  have res: "getEmployeeRosterForDate (Rows rows) employeeId date = Some (last ?s)"
    by (simp add: getEmployeeRosterForDate_def rosters_query_latest [OF assms])
  have mem: "last ?s \<in> set ?m"
    using last_in_set [OF ne] by simp
  have top: "\<forall>r' \<in> set ?m. created_key r' \<le> created_key (last ?s)"
  proof
    fix r' assume "r' \<in> set ?m"
    then have "r' \<in> set ?s" by simp
    moreover have "sorted (map created_key ?s)" by (rule sorted_sort_key)
    ultimately show "created_key r' \<le> created_key (last ?s)"
      by (rule sorted_map_last_greatest [rotated])
  qed
  show ?thesis using res mem top by blast
qed

lemma resolver_none:
  assumes "parse_date date = Some d" and "active_rosters_on rows employeeId d = []"
  shows "getEmployeeRosterForDate (Rows rows) employeeId date = None"
  using assms by (simp add: getEmployeeRosterForDate_def rosters_query_def)

text \<open>
  The resolver keeps to the policy: when more than one roster of the employee is active
  and covers the date, it returns one of them whose \<open>created_at\<close> is the latest.
\<close>

lemma resolver_selects_latest_created:
  assumes "parse_date date = Some d"
    and "1 < length (active_rosters_on rows employeeId d)"
  shows "\<exists>r. getEmployeeRosterForDate (Rows rows) employeeId date = Some r
             \<and> r \<in> set (active_rosters_on rows employeeId d)
             \<and> (\<forall>r' \<in> set (active_rosters_on rows employeeId d). created_key r' \<le> created_key r)"
proof -
  from assms(2) have "active_rosters_on rows employeeId d \<noteq> []" by auto
  with assms(1) show ?thesis by (rule resolver_latest)
qed

lemma resolver_selects_latest_created_example:
  "parse_date ''2024-03-20'' = Some 19802
   \<and> active_rosters_on [roster_older, roster_newer] ''e1'' 19802 = [roster_older, roster_newer]
   \<and> created_key roster_older = Some 1704067200000
   \<and> created_key roster_newer = Some 1706745600000
   \<and> getEmployeeRosterForDate (Rows [roster_older, roster_newer]) ''e1'' ''2024-03-20''
       = Some roster_newer
   \<and> (\<exists>r. getEmployeeRosterForDate (Rows [roster_older, roster_newer]) ''e1'' ''2024-03-20'' = Some r
          \<and> (\<forall>r' \<in> set (active_rosters_on [roster_older, roster_newer] ''e1'' 19802).
                created_key r' \<le> created_key r))"
proof -
  have h1: "parse_date ''2024-03-20'' = Some 19802" by code_simp
  have m: "active_rosters_on [roster_older, roster_newer] ''e1'' 19802 = [roster_older, roster_newer]"
    by code_simp
  have h2: "1 < length (active_rosters_on [roster_older, roster_newer] ''e1'' 19802)"
    by (simp add: m)
  have k1: "created_key roster_older = Some 1704067200000" by code_simp
  have k2: "created_key roster_newer = Some 1706745600000" by code_simp
  have v: "getEmployeeRosterForDate (Rows [roster_older, roster_newer]) ''e1'' ''2024-03-20''
             = Some roster_newer" by code_simp
  from resolver_selects_latest_created [OF h1 h2] h1 m k1 k2 v
  show ?thesis by blast
qed

text \<open>
  Claim C6 fails for the lookup of \<open>RosterStartEditor.handleSave\<close>, which resolves the
  roster of an attendance record with the same filters and without the order. Two rosters
  of the employee are active and cover 20 March 2024; with the older one returned first
  by the store, the editor takes the older one, where the resolver takes the newer.
\<close>

theorem handleSave_takes_first_row:
  "active_rosters_on [roster_older, roster_newer] ''e1'' 19802 = [roster_older, roster_newer]
   \<and> created_key roster_older = Some 1704067200000
   \<and> created_key roster_newer = Some 1706745600000
   \<and> handleSave_existingRoster (Rows [roster_older, roster_newer]) ''e1'' ''2024-03-20''
     = Some roster_older
   \<and> getEmployeeRosterForDate (Rows [roster_older, roster_newer]) ''e1'' ''2024-03-20''
     = Some roster_newer"
  by code_simp

lemma lateness_without_roster:
  assumes "getEmployeeRosterForDate db employeeId date = None"
  shows "calculateRosterBasedLateness db tz employeeId checkInTime date = Num 0"
  using assms by (simp add: calculateRosterBasedLateness_def)

text \<open>
  The recomputation of a stored record does not need a roster either: when no roster is
  found for the record's reference, or the record has none, the late minutes written are
  0, and the update is issued as for any record.
\<close>

lemma recreation_without_roster:
  "upd_minutes_late (recreateAttendanceData_record tz (\<lambda>rosterId. None) record) = Num 0"
  by (simp add: recreateAttendanceData_record_def recreation_calculateLateDuration_def Let_def)

lemma recreation_without_roster_reference:
  "roster_id record = None \<Longrightarrow>
     upd_minutes_late (recreateAttendanceData_record tz getRosterById record) = Num 0"
  by (simp add: recreateAttendanceData_record_def falsy_def Let_def)

text \<open>The write of a first check-in when the resolver finds no roster.\<close>

lemma record_first_check_in_without_roster:
  assumes none: "getEmployeeRosterForDate db employeeId date = None"
    and known: "employeeId \<in> set known_employees"
  shows "\<exists>table'.
           record_first_check_in db tz known_employees table new_id employeeId date checkInTime
             = Inr table'
           \<and> (\<exists>a \<in> set table'. employee_id a = employeeId \<and> a_date a = date
                  \<and> first_check_in_time a \<noteq> None)
           \<and> (find (\<lambda>a. employee_id a = employeeId \<and> a_date a = date) table = None \<longrightarrow>
                table' = table @
                  [\<lparr>a_id = new_id, employee_id = employeeId, a_date = date,
                    first_check_in_time = Some checkInTime, first_check_out_time = None,
                    second_check_in_time = None, second_check_out_time = None,
                    minutes_late = Some 0,
                    working_duration_minutes = None, break_duration_minutes = None,
                    roster_id = None, employees = None\<rparr>])"
proof -
  let ?day = "\<lambda>a. employee_id a = employeeId \<and> a_date a = date"
  let ?check_in = "\<lambda>a. a\<lparr>first_check_in_time := Some checkInTime, minutes_late := Some 0\<rparr>"
  have late: "stored_minutes (calculateRosterBasedLateness db tz employeeId checkInTime date)
                = Some 0"
    using lateness_without_roster [OF none] by (simp add: stored_minutes_def)
  show ?thesis
  proof (cases "find ?day table")
    case None
    then show ?thesis
      using known none late by (simp add: record_first_check_in_def Let_def)
  next
    case (Some a)
    then have a: "a \<in> set table" "?day a"
      by (auto simp: find_Some_iff in_set_conv_nth)
    show ?thesis
    proof (cases "first_check_in_time a = None")
      case False
      with Some have "record_first_check_in db tz known_employees table new_id employeeId date
          checkInTime = Inr table"
        using known by (simp add: record_first_check_in_def Let_def)
      with a False Some show ?thesis by auto
    next
      case True
      with Some have r: "record_first_check_in db tz known_employees table new_id employeeId
          date checkInTime = Inr (map (\<lambda>x. if ?day x then ?check_in x else x) table)"
        using known none late by (simp add: record_first_check_in_def Let_def)
      from a have "?check_in a \<in> set (map (\<lambda>x. if ?day x then ?check_in x else x) table)"
        by force
      moreover have "employee_id (?check_in a) = employeeId \<and> a_date (?check_in a) = date
          \<and> first_check_in_time (?check_in a) \<noteq> None"
        using a by simp
      ultimately have "\<exists>b \<in> set (map (\<lambda>x. if ?day x then ?check_in x else x) table).
          employee_id b = employeeId \<and> a_date b = date \<and> first_check_in_time b \<noteq> None"
        by blast
      with r Some show ?thesis by simp
    qed
  qed
qed

text \<open>
  Claim C4. Without a matching active roster the resolver returns null and the lateness
  is 0. The write of the check-in, as the specification has it, is not refused: for an
  employee that is known the table has a record of the day with the check-in afterwards,
  and when it had none the record created carries 0 late minutes and no roster. The
  recomputation of stored records in the code writes 0 late minutes when no roster is
  found.
\<close>

theorem no_roster_resolves_to_null:
  assumes "parse_date date = Some d" and "active_rosters_on rows employeeId d = []"
    and "employeeId \<in> set known_employees"
  shows "getEmployeeRosterForDate (Rows rows) employeeId date = None
       \<and> calculateRosterBasedLateness (Rows rows) tz employeeId checkInTime date = Num 0
       \<and> (\<exists>table'.
             record_first_check_in (Rows rows) tz known_employees table new_id employeeId date
               checkInTime = Inr table'
             \<and> (\<exists>a \<in> set table'. employee_id a = employeeId \<and> a_date a = date
                    \<and> first_check_in_time a \<noteq> None)
             \<and> (find (\<lambda>a. employee_id a = employeeId \<and> a_date a = date) table = None \<longrightarrow>
                  table' = table @
                    [\<lparr>a_id = new_id, employee_id = employeeId, a_date = date,
                      first_check_in_time = Some checkInTime, first_check_out_time = None,
                      second_check_in_time = None, second_check_out_time = None,
                      minutes_late = Some 0,
                      working_duration_minutes = None, break_duration_minutes = None,
                      roster_id = None, employees = None\<rparr>]))
       \<and> upd_minutes_late (recreateAttendanceData_record tz (\<lambda>rosterId. None) stored) = Num 0"
proof -
  have none: "getEmployeeRosterForDate (Rows rows) employeeId date = None"
    using resolver_none [OF assms(1,2)] .
  show ?thesis
    using none lateness_without_roster [OF none]
      record_first_check_in_without_roster [OF none assms(3)]
      recreation_without_roster
    by blast
qed

text \<open>
  An employee whose only roster is inactive checks in at 09:00 on a day without a record:
  the record is created, with 0 late minutes and no roster.
\<close>

theorem no_roster_resolves_to_null_witness:
  "parse_date ''2024-03-20'' = Some 19802
   \<and> active_rosters_on [roster_0800\<lparr>is_active := False\<rparr>] ''e1'' 19802 = []
   \<and> ''e1'' \<in> set [''e1'', ''e2'']
   \<and> find (\<lambda>a. employee_id a = ''e1'' \<and> a_date a = ''2024-03-20'') [] = None
   \<and> getEmployeeRosterForDate (Rows [roster_0800\<lparr>is_active := False\<rparr>]) ''e1'' ''2024-03-20'' = None
   \<and> calculateRosterBasedLateness (Rows [roster_0800\<lparr>is_active := False\<rparr>]) 0 ''e1''
        ''2024-03-20T09:00:00Z'' ''2024-03-20'' = Num 0
   \<and> record_first_check_in (Rows [roster_0800\<lparr>is_active := False\<rparr>]) 0 [''e1'', ''e2''] []
        ''a7'' ''e1'' ''2024-03-20'' ''2024-03-20T09:00:00Z''
       = Inr [\<lparr>a_id = ''a7'', employee_id = ''e1'', a_date = ''2024-03-20'',
               first_check_in_time = Some ''2024-03-20T09:00:00Z'', first_check_out_time = None,
               second_check_in_time = None, second_check_out_time = None,
               minutes_late = Some 0,
               working_duration_minutes = None, break_duration_minutes = None,
               roster_id = None, employees = None\<rparr>]
   \<and> upd_minutes_late (recreateAttendanceData_record 0 (\<lambda>rosterId. None) check_in_0820) = Num 0"
proof -
  have h1: "parse_date ''2024-03-20'' = Some 19802" by code_simp
  have h2: "active_rosters_on [roster_0800\<lparr>is_active := False\<rparr>] ''e1'' 19802 = []"
    by code_simp
  have h3: "''e1'' \<in> set [''e1'', ''e2'']" by simp
  have h4: "find (\<lambda>a. employee_id a = ''e1'' \<and> a_date a = ''2024-03-20'') [] = None" by simp
  note inst = no_roster_resolves_to_null [OF h1 h2 h3,
      where tz = 0 and checkInTime = "''2024-03-20T09:00:00Z''" and table = "[]"
        and new_id = "''a7''" and stored = check_in_0820]
  from inst h4 have w: "record_first_check_in (Rows [roster_0800\<lparr>is_active := False\<rparr>]) 0
        [''e1'', ''e2''] [] ''a7'' ''e1'' ''2024-03-20'' ''2024-03-20T09:00:00Z''
       = Inr [\<lparr>a_id = ''a7'', employee_id = ''e1'', a_date = ''2024-03-20'',
               first_check_in_time = Some ''2024-03-20T09:00:00Z'', first_check_out_time = None,
               second_check_in_time = None, second_check_out_time = None,
               minutes_late = Some 0,
               working_duration_minutes = None, break_duration_minutes = None,
               roster_id = None, employees = None\<rparr>]"
    by auto
  from inst h1 h2 h3 h4 w show ?thesis by blast
qed

text \<open>
  Claim C5, as the code has it. When the first entry of the pattern whose \<open>date\<close> is the
  given date has the shift \<open>off\<close>, the lateness is 0 whatever the check-in time.
\<close>

theorem off_by_date_is_never_late:
  assumes "getEmployeeRosterForDate db employeeId date = Some rost"
    and "shift_pattern rost = Some pattern"
    and "find (\<lambda>s. entry_date s = Some date) pattern = Some e"
    and "shift e = Some ''off''"
  shows "calculateRosterBasedLateness db tz employeeId checkInTime date = Num 0"
proof -
  have "pattern \<noteq> []" using assms(3) by auto
  then have "getShiftForDate rost date = e"
    using assms(2,3) by (simp add: getShiftForDate_def)
  then show ?thesis
    using assms(1,4) by (simp add: calculateRosterBasedLateness_def)
qed

theorem off_by_date_is_never_late_witness:
  "getEmployeeRosterForDate (Rows [sunday_off_by_date]) ''e1'' ''2024-03-24'' = Some sunday_off_by_date
   \<and> find (\<lambda>s. entry_date s = Some ''2024-03-24'') (the (shift_pattern sunday_off_by_date))
       = Some \<lparr>entry_date = Some ''2024-03-24'', entry_day = None,
               shift = Some ''off'', time_slot = None\<rparr>
   \<and> weekday ''2024-03-24'' = Some 0
   \<and> calculateRosterBasedLateness (Rows [sunday_off_by_date]) 0 ''e1''
        ''2024-03-24T09:00:00Z'' ''2024-03-24'' = Num 0"
proof -
  let ?e = "\<lparr>entry_date = Some ''2024-03-24'', entry_day = None,
             shift = Some ''off'', time_slot = None\<rparr>"
  have h1: "getEmployeeRosterForDate (Rows [sunday_off_by_date]) ''e1'' ''2024-03-24''
              = Some sunday_off_by_date" by code_simp
  have h2: "shift_pattern sunday_off_by_date = Some [?e]"
    by (simp add: sunday_off_by_date_def)
  have h3: "find (\<lambda>s. entry_date s = Some ''2024-03-24'') [?e] = Some ?e" by simp
  have h4: "shift ?e = Some ''off''" by simp
  have w: "weekday ''2024-03-24'' = Some 0" by code_simp
  from off_by_date_is_never_late [OF h1 h2 h3 h4, of 0 "''2024-03-24T09:00:00Z''"] h1 h2 h3 w
  show ?thesis by simp
qed

text \<open>
  Claim C5 as stated fails for an entry that matches by weekday: 24 March 2024 is a
  Sunday, the pattern marks day 0 as off, and a check-in at 09:00 against the 08:00 start
  is 60 minutes late.
\<close>

theorem off_by_weekday_counterexample:
  "weekday ''2024-03-24'' = Some 0
   \<and> shift_pattern sunday_off_by_day
       = Some [\<lparr>entry_date = None, entry_day = Some 0, shift = Some ''off'', time_slot = None\<rparr>]
   \<and> getEmployeeRosterForDate (Rows [sunday_off_by_day]) ''e1'' ''2024-03-24'' = Some sunday_off_by_day
   \<and> calculateRosterBasedLateness (Rows [sunday_off_by_day]) 0 ''e1''
        ''2024-03-24T09:00:00Z'' ''2024-03-24'' = Num 60"
  by code_simp

section \<open>Properties of the insights aggregation\<close>

lemma push_record_keys:
  "fst ` set (push_record k r acc) = insert k (fst ` set acc)"
proof (cases "k \<in> set (map fst acc)")
  case True
  have "map fst (map (\<lambda>(k', g). if k' = k then (k', g @ [r]) else (k', g)) acc) = map fst acc"
    by (induction acc) auto
  then have "set (map fst (push_record k r acc)) = set (map fst acc)"
    using True by (simp only: push_record_def if_True)
  with True show ?thesis by auto
next
  case False
  then show ?thesis by (simp add: push_record_def)
qed

lemma group_by_snoc:
  "group_by key (rs @ [r]) = push_record (key r) r (group_by key rs)"
  by (simp add: group_by_def)

lemma group_by_keys: "fst ` set (group_by key rs) = key ` set rs"
proof (induction rs rule: rev_induct)
  case Nil
  show ?case by (simp add: group_by_def)
next
  case (snoc r rs)
  then show ?case by (simp add: group_by_snoc push_record_keys)
qed

text \<open>Each group is the sublist of the records with its key, in their order.\<close>

lemma group_by_entries:
  "(k, g) \<in> set (group_by key rs) \<Longrightarrow> g = filter (\<lambda>r. key r = k) rs"
proof (induction rs arbitrary: k g rule: rev_induct)
  case Nil
  then show ?case by (simp add: group_by_def)
next
  case (snoc x xs)
  let ?acc = "group_by key xs"
  have mem: "(k, g) \<in> set (push_record (key x) x ?acc)"
    using snoc.prems by (simp add: group_by_snoc)
  show ?case
  proof (cases "key x \<in> set (map fst ?acc)")
    case True
    with mem obtain k' g' where e: "(k', g') \<in> set ?acc"
      and kg: "(k, g) = (if k' = key x then (k', g' @ [x]) else (k', g'))"
      by (auto simp: push_record_def)
    have g': "g' = filter (\<lambda>r. key r = k') xs" using snoc.IH [OF e] .
    show ?thesis
      using kg g' by (auto split: if_splits)
  next
    case False
    then have "push_record (key x) x ?acc = ?acc @ [(key x, [x])]"
      by (simp only: push_record_def if_False)
    with mem have "(k, g) \<in> set ?acc \<or> (k, g) = (key x, [x])"
      by auto
    then show ?thesis
    proof
      assume e: "(k, g) \<in> set ?acc"
      then have "k \<in> set (map fst ?acc)" by force
      with False have "k \<noteq> key x" by metis
      with snoc.IH [OF e] show ?thesis by simp
    next
      assume n: "(k, g) = (key x, [x])"
      from False have "key x \<notin> key ` set xs" by (simp add: group_by_keys)
      then have "\<forall>r \<in> set xs. key r \<noteq> key x"
        by (metis imageI)
      then have "filter (\<lambda>r. key r = key x) xs = []"
        by (simp add: filter_empty_conv)
      with n show ?thesis by simp
    qed
  qed
qed

lemma group_by_nonempty:
  assumes "(k, g) \<in> set (group_by key rs)"
  shows "g \<noteq> []"
proof -
  from assms have "k \<in> set (map fst (group_by key rs))" by force
  then have "k \<in> key ` set rs" by (simp add: group_by_keys)
  then have "filter (\<lambda>r. key r = k) rs \<noteq> []"
    by (auto simp: filter_empty_conv)
  with group_by_entries [OF assms] show ?thesis by simp
qed

lemma group_by_Nil: "group_by key [] = []"
  by (simp add: group_by_def)

text \<open>The group of a key is there exactly when a record has the key, and only once.\<close>

lemma filter_key_map_push:
  "filter (\<lambda>p. fst p = k) (map (\<lambda>(k', g). if k' = k0 then (k', g @ [r]) else (k', g)) acc)
     = map (\<lambda>(k', g). if k' = k0 then (k', g @ [r]) else (k', g)) (filter (\<lambda>p. fst p = k) acc)"
  by (induction acc) (auto split: if_splits)

lemma filter_no_key:
  "k \<notin> key ` set rs \<Longrightarrow> filter (\<lambda>r. key r = k) rs = []"
  by (auto simp: filter_empty_conv)

lemma group_by_filter_key:
  "filter (\<lambda>p. fst p = k) (group_by key rs)
     = (if k \<in> key ` set rs then [(k, filter (\<lambda>r. key r = k) rs)] else [])"
proof (induction rs rule: rev_induct)
  case Nil
  show ?case by (simp add: group_by_def)
next
  case (snoc x xs)
  let ?acc = "group_by key xs"
  show ?case
  proof (cases "key x \<in> key ` set xs")
    case True
    then have "key x \<in> set (map fst ?acc)" using group_by_keys [of key xs] by simp
    then have "group_by key (xs @ [x])
        = map (\<lambda>(k', g). if k' = key x then (k', g @ [x]) else (k', g)) ?acc"
      by (simp only: group_by_snoc push_record_def if_True)
    then have "filter (\<lambda>p. fst p = k) (group_by key (xs @ [x]))
        = map (\<lambda>(k', g). if k' = key x then (k', g @ [x]) else (k', g))
              (if k \<in> key ` set xs then [(k, filter (\<lambda>r. key r = k) xs)] else [])"
      by (simp only: filter_key_map_push snoc.IH)
    with True show ?thesis by auto
  next
    case False
    then have "key x \<notin> set (map fst ?acc)" using group_by_keys [of key xs] by simp
    then have "group_by key (xs @ [x]) = ?acc @ [(key x, [x])]"
      by (simp only: group_by_snoc push_record_def if_False)
    then have "filter (\<lambda>p. fst p = k) (group_by key (xs @ [x]))
        = (if k \<in> key ` set xs then [(k, filter (\<lambda>r. key r = k) xs)] else [])
          @ (if key x = k then [(key x, [x])] else [])"
      by (simp add: snoc.IH)
    with False show ?thesis by (auto simp: filter_no_key)
  qed
qed

lemma map_of_by_filter:
  "map_of xs k = (case filter (\<lambda>p. fst p = k) xs of [] \<Rightarrow> None | p # _ \<Rightarrow> Some (snd p))"
  by (induction xs) auto

text \<open>The two outputs, read off the groups; with no records both are empty.\<close>

lemma generateAttendanceInsights_groups:
  "departmentStats (generateAttendanceInsights ar records)
     = map (\<lambda>(dept, rs). (dept, department_stat_of ar rs)) (group_by deptId records)"
  "trends (generateAttendanceInsights ar records)
     = sort_key trend_date (map (\<lambda>(d, rs). trend_of ar d rs) (group_by a_date records))"
  by (cases records; simp add: generateAttendanceInsights_def group_by_Nil)+

lemma departmentStats_lookup:
  "map_of (departmentStats (generateAttendanceInsights ar records)) dept
     = (if dept \<in> deptId ` set records
        then Some (department_stat_of ar (filter (\<lambda>r. deptId r = dept) records))
        else None)"
proof -
  have "filter (\<lambda>p. fst p = dept)
          (map (\<lambda>(dept, rs). (dept, department_stat_of ar rs)) (group_by deptId records))
        = map (\<lambda>(dept, rs). (dept, department_stat_of ar rs))
            (filter (\<lambda>p. fst p = dept) (group_by deptId records))"
    by (induction "group_by deptId records") (auto simp: filter_map comp_def split_def)
  then show ?thesis
    by (simp add: map_of_by_filter generateAttendanceInsights_groups group_by_filter_key)
qed

lemma trends_on_date:
  "filter (\<lambda>t. trend_date t = d) (trends (generateAttendanceInsights ar records))
     = (if d \<in> a_date ` set records
        then [trend_of ar d (filter (\<lambda>r. a_date r = d) records)]
        else [])"
proof -
  have "filter (\<lambda>t. trend_date t = d)
          (map (\<lambda>(d, rs). trend_of ar d rs) (group_by a_date records))
        = map (\<lambda>(d, rs). trend_of ar d rs)
            (filter (\<lambda>p. fst p = d) (group_by a_date records))"
    by (simp add: filter_map comp_def split_def trend_of_def)
  then show ?thesis
    by (simp add: generateAttendanceInsights_groups filter_sort group_by_filter_key)
qed

lemma trends_sorted:
  "sorted (map trend_date (trends (generateAttendanceInsights ar records)))"
  by (simp add: generateAttendanceInsights_groups)

lemma trends_entry:
  assumes "t \<in> set (trends (generateAttendanceInsights ar records))"
  shows "t = trend_of ar (trend_date t) (filter (\<lambda>r. a_date r = trend_date t) records)"
proof -
  from assms have "t \<in> set (filter (\<lambda>u. trend_date u = trend_date t)
                              (trends (generateAttendanceInsights ar records)))"
    by simp
  then show ?thesis
    by (simp only: trends_on_date) (simp split: if_splits)
qed

text \<open>The two counts of a list of records, as counts of the values of \<open>minutes_late\<close>.\<close>

lemma onTimeRecords_of_key:
  "onTimeRecords (filter (\<lambda>r. key r = k) records)
     = length (filter (\<lambda>r. key r = k \<and> (minutes_late r = None \<or> minutes_late r = Some 0))
                 records)"
proof -
  have "\<And>r. on_time r = (minutes_late r = None \<or> minutes_late r = Some 0)"
    by (simp add: on_time_def split: option.splits)
  then show ?thesis
    by (simp add: onTimeRecords_def conj_commute)
qed

lemma lateRecords_of_key:
  "lateRecords (filter (\<lambda>r. key r = k) records)
     = length (filter (\<lambda>r. key r = k
                 \<and> (case minutes_late r of None \<Rightarrow> False | Some m \<Rightarrow> 0 < m)) records)"
proof -
  have "\<And>r. is_late r = (case minutes_late r of None \<Rightarrow> False | Some m \<Rightarrow> 0 < m)"
    by (auto simp: is_late_def split: option.splits)
  then show ?thesis
    by (simp add: lateRecords_def conj_commute)
qed

lemma on_time_or_late:
  assumes "\<And>m. minutes_late r = Some m \<Longrightarrow> 0 \<le> m"
  shows "is_late r = (\<not> on_time r)"
  using assms by (cases "minutes_late r") (auto simp: is_late_def on_time_def)

lemma length_filter_complement:
  "length (filter P xs) + length (filter (\<lambda>x. \<not> P x) xs) = length xs"
  by (induction xs) auto

lemma on_time_plus_late:
  assumes "\<forall>r \<in> set rs. \<forall>m. minutes_late r = Some m \<longrightarrow> 0 \<le> m"
  shows "onTimeRecords rs + lateRecords rs = length rs"
proof -
  have "filter is_late rs = filter (\<lambda>r. \<not> on_time r) rs"
    using assms by (intro filter_cong) (auto simp: on_time_or_late)
  then show ?thesis
    by (simp add: onTimeRecords_def lateRecords_def length_filter_complement)
qed

text \<open>
  Claim C10, as the code has it. Every date that has a record gets exactly one trend, and
  a date without records none. Its \<open>onTimeCount\<close> is the number of the date's records
  whose \<open>minutes_late\<close> is null or 0, so a record without \<open>minutes_late\<close> is counted there;
  its \<open>lateCount\<close> is the number of those whose \<open>minutes_late\<close> is above 0, so such a
  record is not counted there. The compliance rate of a department is formed from the
  number of its records whose \<open>minutes_late\<close> is null or 0. When no stored \<open>minutes_late\<close>
  is negative, the two counts of every date add up to the number of records of that date.
\<close>

theorem null_minutes_late_is_on_time:
  "(\<forall>d. map (\<lambda>t. (onTimeCount t, lateCount t))
            (filter (\<lambda>t. trend_date t = d) (trends (generateAttendanceInsights ar records)))
          = (if d \<in> a_date ` set records
             then [(length (filter (\<lambda>r. a_date r = d
                              \<and> (minutes_late r = None \<or> minutes_late r = Some 0)) records),
                    length (filter (\<lambda>r. a_date r = d
                              \<and> (case minutes_late r of None \<Rightarrow> False | Some m \<Rightarrow> 0 < m))
                              records))]
             else []))
   \<and> (\<forall>dept. map_option complianceRate
                 (map_of (departmentStats (generateAttendanceInsights ar records)) dept)
          = (if dept \<in> deptId ` set records
             then Some (dbl_mul ar
                    (dbl_div ar
                       (dbl ar (int (length (filter (\<lambda>r. deptId r = dept
                          \<and> (minutes_late r = None \<or> minutes_late r = Some 0)) records))))
                       (dbl ar (int (length (filter (\<lambda>r. deptId r = dept) records)))))
                    (dbl ar 100))
             else None))
   \<and> ((\<forall>r \<in> set records. \<forall>m. minutes_late r = Some m \<longrightarrow> 0 \<le> m) \<longrightarrow>
        (\<forall>t \<in> set (trends (generateAttendanceInsights ar records)).
            onTimeCount t + lateCount t
              = length (filter (\<lambda>r. a_date r = trend_date t) records)))"
proof (intro conjI allI impI ballI)
  fix d
  show "map (\<lambda>t. (onTimeCount t, lateCount t))
            (filter (\<lambda>t. trend_date t = d) (trends (generateAttendanceInsights ar records)))
          = (if d \<in> a_date ` set records
             then [(length (filter (\<lambda>r. a_date r = d
                              \<and> (minutes_late r = None \<or> minutes_late r = Some 0)) records),
                    length (filter (\<lambda>r. a_date r = d
                              \<and> (case minutes_late r of None \<Rightarrow> False | Some m \<Rightarrow> 0 < m))
                              records))]
             else [])"
    by (simp add: trends_on_date trend_of_def onTimeRecords_of_key lateRecords_of_key)
next
  fix dept
  show "map_option complianceRate
          (map_of (departmentStats (generateAttendanceInsights ar records)) dept)
          = (if dept \<in> deptId ` set records
             then Some (dbl_mul ar
                    (dbl_div ar
                       (dbl ar (int (length (filter (\<lambda>r. deptId r = dept
                          \<and> (minutes_late r = None \<or> minutes_late r = Some 0)) records))))
                       (dbl ar (int (length (filter (\<lambda>r. deptId r = dept) records)))))
                    (dbl ar 100))
             else None)"
    by (simp add: departmentStats_lookup department_stat_of_def onTimeRecords_of_key
          totalRecords_def)
next
  fix t
  assume nonneg: "\<forall>r \<in> set records. \<forall>m. minutes_late r = Some m \<longrightarrow> 0 \<le> m"
    and t: "t \<in> set (trends (generateAttendanceInsights ar records))"
  let ?rs = "filter (\<lambda>r. a_date r = trend_date t) records"
  have "\<forall>r \<in> set ?rs. \<forall>m. minutes_late r = Some m \<longrightarrow> 0 \<le> m"
    using nonneg by auto
  then have "onTimeRecords ?rs + lateRecords ?rs = length ?rs"
    by (rule on_time_plus_late)
  moreover have "onTimeCount t = onTimeRecords ?rs" "lateCount t = lateRecords ?rs"
    using trends_entry [OF t] by (metis trend.select_convs(2) trend_of_def,
                                  metis trend.select_convs(3) trend_of_def)
  ultimately show "onTimeCount t + lateCount t = length ?rs" by simp
qed

text \<open>
  Four records of department d1: on 20 March one with 0 late minutes and one without
  \<open>minutes_late\<close>, both counted on time; on 21 March one that is 20 minutes late and one
  with 0 late minutes.
\<close>

theorem null_minutes_late_is_on_time_witness:
  "minutes_late day1_e1 = Some 0 \<and> minutes_late day1_unknown = None
   \<and> minutes_late day2_late = Some 20 \<and> minutes_late day2_e1 = Some 0
   \<and> map (\<lambda>t. (onTimeCount t, lateCount t))
       (filter (\<lambda>t. trend_date t = ''2024-03-20'')
          (trends (generateAttendanceInsights exact_arithmetic [day1_e1, day1_unknown, day2_late, day2_e1])))
     = [(2, 0)]
   \<and> map (\<lambda>t. (onTimeCount t, lateCount t))
       (filter (\<lambda>t. trend_date t = ''2024-03-22'')
          (trends (generateAttendanceInsights exact_arithmetic [day1_e1, day1_unknown, day2_late, day2_e1])))
     = []
   \<and> map_option complianceRate
       (map_of (departmentStats
          (generateAttendanceInsights exact_arithmetic [day1_e1, day1_unknown, day2_late, day2_e1])) ''d1'')
     = Some 75
   \<and> trends (generateAttendanceInsights exact_arithmetic [day1_e1, day1_unknown, day2_late, day2_e1])
       = [\<lparr>trend_date = ''2024-03-20'', onTimeCount = 2, lateCount = 0, averageWorkingHours = 4\<rparr>,
          \<lparr>trend_date = ''2024-03-21'', onTimeCount = 1, lateCount = 1, averageWorkingHours = 31 / 4\<rparr>]
   \<and> length (filter (\<lambda>r. a_date r = ''2024-03-20'') [day1_e1, day1_unknown, day2_late, day2_e1]) = 2 + 0
   \<and> length (filter (\<lambda>r. a_date r = ''2024-03-21'') [day1_e1, day1_unknown, day2_late, day2_e1]) = 1 + 1"
proof -
  let ?rs = "[day1_e1, day1_unknown, day2_late, day2_e1]"
  let ?t1 = "\<lparr>trend_date = ''2024-03-20'', onTimeCount = 2, lateCount = 0,
              averageWorkingHours = 4 :: rat\<rparr>"
  let ?t2 = "\<lparr>trend_date = ''2024-03-21'', onTimeCount = 1, lateCount = 1,
              averageWorkingHours = 31 / 4 :: rat\<rparr>"
  have m: "minutes_late day1_e1 = Some 0" "minutes_late day1_unknown = None"
    "minutes_late day2_late = Some 20" "minutes_late day2_e1 = Some 0"
    by (simp_all add: day1_e1_def day1_unknown_def day2_late_def day2_e1_def)
  then have h: "\<forall>r \<in> set ?rs. \<forall>m. minutes_late r = Some m \<longrightarrow> 0 \<le> m"
    by simp
  have v: "trends (generateAttendanceInsights exact_arithmetic ?rs) = [?t1, ?t2]"
    by code_simp
  have d1: "''2024-03-20'' \<in> a_date ` set ?rs" by code_simp
  have d3: "''2024-03-22'' \<notin> a_date ` set ?rs" by code_simp
  have k1: "''d1'' \<in> deptId ` set ?rs" by code_simp
  have n1: "length (filter (\<lambda>r. a_date r = ''2024-03-20''
              \<and> (minutes_late r = None \<or> minutes_late r = Some 0)) ?rs) = 2"
    by code_simp
  have n2: "length (filter (\<lambda>r. a_date r = ''2024-03-20''
              \<and> (case minutes_late r of None \<Rightarrow> False | Some m \<Rightarrow> 0 < m)) ?rs) = 0"
    by code_simp
  have n3: "dbl_mul exact_arithmetic
              (dbl_div exact_arithmetic
                 (dbl exact_arithmetic (int (length (filter (\<lambda>r. deptId r = ''d1''
                    \<and> (minutes_late r = None \<or> minutes_late r = Some 0)) ?rs))))
                 (dbl exact_arithmetic (int (length (filter (\<lambda>r. deptId r = ''d1'') ?rs)))))
              (dbl exact_arithmetic 100) = 75"
    by code_simp
  note inst = null_minutes_late_is_on_time [of exact_arithmetic ?rs]
  from inst have a: "\<And>d. map (\<lambda>t. (onTimeCount t, lateCount t))
            (filter (\<lambda>t. trend_date t = d) (trends (generateAttendanceInsights exact_arithmetic ?rs)))
          = (if d \<in> a_date ` set ?rs
             then [(length (filter (\<lambda>r. a_date r = d
                              \<and> (minutes_late r = None \<or> minutes_late r = Some 0)) ?rs),
                    length (filter (\<lambda>r. a_date r = d
                              \<and> (case minutes_late r of None \<Rightarrow> False | Some m \<Rightarrow> 0 < m))
                              ?rs))]
             else [])"
    by blast
  from inst have q: "\<And>dept. map_option complianceRate
          (map_of (departmentStats (generateAttendanceInsights exact_arithmetic ?rs)) dept)
          = (if dept \<in> deptId ` set ?rs
             then Some (dbl_mul exact_arithmetic
                    (dbl_div exact_arithmetic
                       (dbl exact_arithmetic (int (length (filter (\<lambda>r. deptId r = dept
                          \<and> (minutes_late r = None \<or> minutes_late r = Some 0)) ?rs))))
                       (dbl exact_arithmetic (int (length (filter (\<lambda>r. deptId r = dept) ?rs)))))
                    (dbl exact_arithmetic 100))
             else None)"
    by blast
  from inst h have b: "\<And>t. t \<in> set (trends (generateAttendanceInsights exact_arithmetic ?rs))
      \<Longrightarrow> onTimeCount t + lateCount t = length (filter (\<lambda>r. a_date r = trend_date t) ?rs)"
    by blast
  have c0: "map (\<lambda>t. (onTimeCount t, lateCount t))
       (filter (\<lambda>t. trend_date t = ''2024-03-20'')
          (trends (generateAttendanceInsights exact_arithmetic ?rs))) = [(2, 0)]"
    using a [of "''2024-03-20''"] d1 n1 n2 by (simp only: if_True)
  have c3: "map (\<lambda>t. (onTimeCount t, lateCount t))
       (filter (\<lambda>t. trend_date t = ''2024-03-22'')
          (trends (generateAttendanceInsights exact_arithmetic ?rs))) = []"
    using a [of "''2024-03-22''"] d3 by (simp only: if_False)
  have c4: "map_option complianceRate
       (map_of (departmentStats (generateAttendanceInsights exact_arithmetic ?rs)) ''d1'')
     = Some 75"
    using q [of "''d1''"] k1 n3 by (simp only: if_True)
  have "?t1 \<in> set (trends (generateAttendanceInsights exact_arithmetic ?rs))"
    by (simp only: v) simp
  from b [OF this]
  have c1: "length (filter (\<lambda>r. a_date r = ''2024-03-20'') ?rs) = 2 + 0"
    by simp
  have "?t2 \<in> set (trends (generateAttendanceInsights exact_arithmetic ?rs))"
    by (simp only: v) simp
  from b [OF this]
  have c2: "length (filter (\<lambda>r. a_date r = ''2024-03-21'') ?rs) = 1 + 1"
    by simp
  from m c0 c3 c4 v c1 c2 show ?thesis by blast
qed

text \<open>
  Claim C10 as stated fails for a negative \<open>minutes_late\<close>: such a record is neither on
  time nor late, and the two counts of its date do not reach the number of records.
\<close>

theorem negative_minutes_late_counterexample:
  "minutes_late day1_negative = Some (- 5)
   \<and> trends (generateAttendanceInsights exact_arithmetic [day1_negative])
       = [\<lparr>trend_date = ''2024-03-20'', onTimeCount = 0, lateCount = 0, averageWorkingHours = 0\<rparr>]
   \<and> length (filter (\<lambda>r. a_date r = ''2024-03-20'') [day1_negative]) = 1"
  by code_simp

lemma partial_sums_append:
  "partial_sums_of (A @ B) = merge_sums (partial_sums_of A) (partial_sums_of B)"
  by (simp add: partial_sums_of_def merge_sums_def totalRecords_def onTimeRecords_def
        lateRecords_def totalLateMinutes_def totalWorkingMinutes_def)

text \<open>
  The running sum of the working hours over two lists is the sum over the first,
  continued over the second: the same additions in the same order.
\<close>

lemma sumWorkingHours_append:
  "sumWorkingHours ar start (A @ B) = sumWorkingHours ar (sumWorkingHours ar start A) B"
  by (simp add: sumWorkingHours_def)

text \<open>The statistics the code computes for a list are those formed from its partial sums.\<close>

lemma department_stat_of_sums:
  "department_stat_of ar rs = department_stat_from ar (partial_sums_of rs)"
  by (simp add: department_stat_of_def department_stat_from_def partial_sums_of_def
        totalEmployees_def length_remdups_card_conv)

lemma trend_of_sums:
  "trend_of ar d rs = trend_from ar d (partial_sums_of rs) (sumWorkingHours ar (dbl ar 0) rs)"
  by (simp add: trend_of_def trend_from_def partial_sums_of_def totalRecords_def)

text \<open>
  Claim C9, as the code has it, for every arithmetic of the averages. The partial sums of
  two record lists, the sets of employee ids among them, add up to those of their union.
  Every department that has a record in the union is reported, with the statistics
  formed from the added partial sums of that department, and no other department is.
  Every date that has a record in the union gets exactly one trend, formed from the added
  partial sums of that date and the running sum of its working hours continued from the
  first list over the second; no other date gets one, and the trends are in the order of
  their dates.
\<close>

theorem union_statistics_from_partial_sums:
  "partial_sums_of (A @ B) = merge_sums (partial_sums_of A) (partial_sums_of B)
   \<and> (\<forall>dept. map_of (departmentStats (generateAttendanceInsights ar (A @ B))) dept
         = (if dept \<in> deptId ` set (A @ B)
            then Some (department_stat_from ar (dept_sums dept A B))
            else None))
   \<and> (\<forall>d. filter (\<lambda>t. trend_date t = d) (trends (generateAttendanceInsights ar (A @ B)))
         = (if d \<in> a_date ` set (A @ B)
            then [trend_from ar d (date_sums d A B) (date_hours ar d A B)]
            else []))
   \<and> sorted (map trend_date (trends (generateAttendanceInsights ar (A @ B))))"
proof (intro conjI allI)
  show "partial_sums_of (A @ B) = merge_sums (partial_sums_of A) (partial_sums_of B)"
    by (rule partial_sums_append)
next
  fix dept
  have "department_stat_of ar (filter (\<lambda>r. deptId r = dept) (A @ B))
          = department_stat_from ar (dept_sums dept A B)"
    by (simp only: filter_append department_stat_of_sums partial_sums_append dept_sums_def)
  then show "map_of (departmentStats (generateAttendanceInsights ar (A @ B))) dept
         = (if dept \<in> deptId ` set (A @ B)
            then Some (department_stat_from ar (dept_sums dept A B))
            else None)"
    by (simp only: departmentStats_lookup)
next
  fix d
  have "trend_of ar d (filter (\<lambda>r. a_date r = d) (A @ B))
          = trend_from ar d (date_sums d A B) (date_hours ar d A B)"
    by (simp only: filter_append trend_of_sums partial_sums_append sumWorkingHours_append
          date_sums_def date_hours_def)
  then show "filter (\<lambda>t. trend_date t = d) (trends (generateAttendanceInsights ar (A @ B)))
         = (if d \<in> a_date ` set (A @ B)
            then [trend_from ar d (date_sums d A B) (date_hours ar d A B)]
            else [])"
    by (simp only: trends_on_date)
next
  show "sorted (map trend_date (trends (generateAttendanceInsights ar (A @ B))))"
    by (rule trends_sorted)
qed

text \<open>
  Two records of 20 March followed by two of 21 March, all of department d1, in the
  arithmetic of the rationals.
\<close>

theorem union_statistics_from_partial_sums_witness:
  "map_of (departmentStats (generateAttendanceInsights exact_arithmetic
             ([day1_e1, day1_unknown] @ [day2_e1, day2_late]))) ''d1''
     = Some \<lparr>stat_totalEmployees = 2, averageAttendance = 200,
             averageLateMinutes = 5, complianceRate = 75\<rparr>
   \<and> department_stat_from exact_arithmetic
        (dept_sums ''d1'' [day1_e1, day1_unknown] [day2_e1, day2_late])
     = \<lparr>stat_totalEmployees = 2, averageAttendance = 200,
        averageLateMinutes = 5, complianceRate = 75\<rparr>
   \<and> map_of (departmentStats (generateAttendanceInsights exact_arithmetic
             ([day1_e1, day1_unknown] @ [day2_e1, day2_late]))) ''d2'' = None
   \<and> sum_records (dept_sums ''d1'' [day1_e1, day1_unknown] [day2_e1, day2_late]) = 4
   \<and> sum_late_minutes (dept_sums ''d1'' [day1_e1, day1_unknown] [day2_e1, day2_late]) = 20
   \<and> trends (generateAttendanceInsights exact_arithmetic
        ([day1_e1, day1_unknown] @ [day2_e1, day2_late]))
     = [\<lparr>trend_date = ''2024-03-20'', onTimeCount = 2, lateCount = 0, averageWorkingHours = 4\<rparr>,
        \<lparr>trend_date = ''2024-03-21'', onTimeCount = 1, lateCount = 1, averageWorkingHours = 31 / 4\<rparr>]
   \<and> trend_from exact_arithmetic ''2024-03-21''
        (date_sums ''2024-03-21'' [day1_e1, day1_unknown] [day2_e1, day2_late])
        (date_hours exact_arithmetic ''2024-03-21'' [day1_e1, day1_unknown] [day2_e1, day2_late])
     = \<lparr>trend_date = ''2024-03-21'', onTimeCount = 1, lateCount = 1, averageWorkingHours = 31 / 4\<rparr>"
proof -
  let ?A = "[day1_e1, day1_unknown]"
  let ?B = "[day2_e1, day2_late]"
  let ?st = "\<lparr>stat_totalEmployees = 2, averageAttendance = 200 :: rat,
              averageLateMinutes = 5, complianceRate = 75\<rparr>"
  let ?t1 = "\<lparr>trend_date = ''2024-03-20'', onTimeCount = 2, lateCount = 0,
              averageWorkingHours = 4 :: rat\<rparr>"
  let ?t2 = "\<lparr>trend_date = ''2024-03-21'', onTimeCount = 1, lateCount = 1,
              averageWorkingHours = 31 / 4 :: rat\<rparr>"
  have m: "map_of (departmentStats (generateAttendanceInsights exact_arithmetic (?A @ ?B))) ''d1''
             = Some ?st"
    by code_simp
  have k1: "''d1'' \<in> deptId ` set (?A @ ?B)" by code_simp
  have k2: "''d2'' \<notin> deptId ` set (?A @ ?B)" by code_simp
  have k3: "''2024-03-21'' \<in> a_date ` set (?A @ ?B)" by code_simp
  have n: "sum_records (dept_sums ''d1'' ?A ?B) = 4"
    by code_simp
  have l: "sum_late_minutes (dept_sums ''d1'' ?A ?B) = 20"
    by code_simp
  have v: "trends (generateAttendanceInsights exact_arithmetic (?A @ ?B)) = [?t1, ?t2]"
    by code_simp
  note inst = union_statistics_from_partial_sums [of ?A ?B exact_arithmetic]
  from inst have a: "\<And>dept. map_of (departmentStats
         (generateAttendanceInsights exact_arithmetic (?A @ ?B))) dept
         = (if dept \<in> deptId ` set (?A @ ?B)
            then Some (department_stat_from exact_arithmetic (dept_sums dept ?A ?B))
            else None)"
    by blast
  from inst have b: "\<And>d. filter (\<lambda>t. trend_date t = d)
         (trends (generateAttendanceInsights exact_arithmetic (?A @ ?B)))
         = (if d \<in> a_date ` set (?A @ ?B)
            then [trend_from exact_arithmetic d (date_sums d ?A ?B)
                    (date_hours exact_arithmetic d ?A ?B)]
            else [])"
    by blast
  have u: "department_stat_from exact_arithmetic (dept_sums ''d1'' ?A ?B) = ?st"
    using a [of "''d1''"] k1 m by (simp only: if_True option.inject)
  have z: "map_of (departmentStats (generateAttendanceInsights exact_arithmetic (?A @ ?B))) ''d2''
             = None"
    using a [of "''d2''"] k2 by (simp only: if_False)
  have f: "filter (\<lambda>t. trend_date t = ''2024-03-21'') [?t1, ?t2] = [?t2]"
    by simp
  have w: "trend_from exact_arithmetic ''2024-03-21'' (date_sums ''2024-03-21'' ?A ?B)
             (date_hours exact_arithmetic ''2024-03-21'' ?A ?B) = ?t2"
    using b [of "''2024-03-21''"] k3 f by (simp only: v if_True list.inject)
  from m u z n l v w show ?thesis by blast
qed

text \<open>
  The reported statistics themselves cannot be merged, whatever the arithmetic. Two
  one-record sets, the same day for employee e1 and for employee e2, have the same
  aggregate; united with a record of e1 on another day they give one employee in one case
  and two in the other.
\<close>

lemma equal_aggregates:
  "generateAttendanceInsights ar [day2_e1] = generateAttendanceInsights ar [day2_e2]"
  by (simp add: generateAttendanceInsights_def group_by_def push_record_def deptId_def falsy_def
      department_stat_of_def trend_of_def totalEmployees_def totalRecords_def onTimeRecords_def
      lateRecords_def totalLateMinutes_def sumWorkingHours_def on_time_def is_late_def
      day2_e1_def day2_e2_def blank_attendance_def employee_1_def employee_2_def coalesce0_def)

lemma employees_of_unions:
  "map (\<lambda>(dept, st). (dept, stat_totalEmployees st))
       (departmentStats (generateAttendanceInsights ar ([day1_e1] @ [day2_e1]))) = [(''d1'', 1)]"
  "map (\<lambda>(dept, st). (dept, stat_totalEmployees st))
       (departmentStats (generateAttendanceInsights ar ([day1_e1] @ [day2_e2]))) = [(''d1'', 2)]"
  by code_simp+

lemma different_unions:
  "generateAttendanceInsights ar ([day1_e1] @ [day2_e1])
     \<noteq> generateAttendanceInsights ar ([day1_e1] @ [day2_e2])"
proof
  assume "generateAttendanceInsights ar ([day1_e1] @ [day2_e1])
            = generateAttendanceInsights ar ([day1_e1] @ [day2_e2])"
  then have "map (\<lambda>(dept, st). (dept, stat_totalEmployees st))
               (departmentStats (generateAttendanceInsights ar ([day1_e1] @ [day2_e1])))
             = map (\<lambda>(dept, st). (dept, stat_totalEmployees st))
               (departmentStats (generateAttendanceInsights ar ([day1_e1] @ [day2_e2])))"
    by simp
  then show False by (simp only: employees_of_unions) simp
qed

lemma disjoint_samples:
  "set [day1_e1] \<inter> set [day2_e1] = {}" "set [day1_e1] \<inter> set [day2_e2] = {}"
  by code_simp+

lemma no_merge_of_reported_statistics:
  "\<not> (\<exists>merge. \<forall>A B. set A \<inter> set B = {} \<longrightarrow>
         generateAttendanceInsights ar (A @ B)
           = merge (generateAttendanceInsights ar A) (generateAttendanceInsights ar B))"
proof
  assume "\<exists>merge. \<forall>A B. set A \<inter> set B = {} \<longrightarrow>
            generateAttendanceInsights ar (A @ B)
              = merge (generateAttendanceInsights ar A) (generateAttendanceInsights ar B)"
  then obtain merge where m: "\<And>A B. set A \<inter> set B = {} \<Longrightarrow>
            generateAttendanceInsights ar (A @ B)
              = merge (generateAttendanceInsights ar A) (generateAttendanceInsights ar B)"
    by blast
  have "generateAttendanceInsights ar ([day1_e1] @ [day2_e1])
          = merge (generateAttendanceInsights ar [day1_e1]) (generateAttendanceInsights ar [day2_e1])"
    by (rule m [OF disjoint_samples(1)])
  also have "\<dots> = merge (generateAttendanceInsights ar [day1_e1])
                        (generateAttendanceInsights ar [day2_e2])"
    by (simp only: equal_aggregates)
  also have "\<dots> = generateAttendanceInsights ar ([day1_e1] @ [day2_e2])"
    by (rule m [OF disjoint_samples(2), symmetric])
  finally show False using different_unions by contradiction
qed

text \<open>
  Claim C9 as stated fails: the aggregates of the two disjoint pairs cannot both be the
  merge of the aggregates of their parts, whatever the merge.
\<close>

theorem merge_counterexample:
  "set [day1_e1] \<inter> set [day2_e1] = {} \<and> set [day1_e1] \<inter> set [day2_e2] = {}
   \<and> generateAttendanceInsights exact_arithmetic [day2_e1]
       = generateAttendanceInsights exact_arithmetic [day2_e2]
   \<and> generateAttendanceInsights exact_arithmetic ([day1_e1] @ [day2_e1])
       \<noteq> generateAttendanceInsights exact_arithmetic ([day1_e1] @ [day2_e2])
   \<and> stat_totalEmployees (department_stat_of exact_arithmetic ([day1_e1] @ [day2_e1])) = 1
   \<and> stat_totalEmployees (department_stat_of exact_arithmetic ([day1_e1] @ [day2_e2])) = 2"
  by code_simp

end
